theory Spec2Isabelle
  imports Complex_Main "HOL-Library.Multiset"
begin

section \<open>JavaScript numbers\<close>

text \<open>
  The servers compute with JavaScript numbers. They are modelled as exact reals extended
  with the three non-finite values that the code can meet without any rounding:
  \<open>NaN\<close> (a failed \<open>parseFloat\<close>, \<open>0/0\<close>, \<open>Infinity - Infinity\<close>, \<open>Infinity * 0\<close>)
  and the two infinities (the literal \<open>Infinity\<close> in a field, a division by zero).
  Rounding, overflow and underflow of binary64 are not modelled, so a sum, product or
  quotient of the model is the exact one where the code has the nearest binary64 number
  (\<open>23\<close> where the code has \<open>23.000000000000004\<close>). The statements below are either
  structural in the arithmetic (they name the same operations on the same operands as the
  code), or about the fields of a given calculation, or evaluated on inputs whose sums
  decide the comparisons in binary64 as they do exactly; none says that an aggregate of
  arbitrary rows has the same digits as in the code. Negative zero is identified with
  zero: every accumulator of the code starts at \<open>+0\<close>, and \<open>+0 + -0 = +0\<close>, so a negative
  zero never becomes a divisor.
\<close>

datatype number = Fin real | PInf | NInf | NaN

fun js_neg :: "number \<Rightarrow> number" where
  "js_neg (Fin a) = Fin (- a)"
| "js_neg PInf = NInf"
| "js_neg NInf = PInf"
| "js_neg NaN = NaN"

fun js_add :: "number \<Rightarrow> number \<Rightarrow> number" where
  "js_add NaN _ = NaN"
| "js_add _ NaN = NaN"
| "js_add (Fin a) (Fin b) = Fin (a + b)"
| "js_add PInf NInf = NaN"
| "js_add NInf PInf = NaN"
| "js_add PInf _ = PInf"
| "js_add NInf _ = NInf"
| "js_add (Fin a) PInf = PInf"
| "js_add (Fin a) NInf = NInf"

definition js_sub :: "number \<Rightarrow> number \<Rightarrow> number" where
  "js_sub a b = js_add a (js_neg b)"

text \<open>The sign of a number that is not \<open>NaN\<close>: \<open>-1\<close>, \<open>0\<close> or \<open>1\<close>.\<close>

fun js_sign :: "number \<Rightarrow> int" where
  "js_sign (Fin a) = (if a < 0 then - 1 else if a = 0 then 0 else 1)"
| "js_sign PInf = 1"
| "js_sign NInf = - 1"
| "js_sign NaN = 0"

fun js_mul :: "number \<Rightarrow> number \<Rightarrow> number" where
  "js_mul NaN _ = NaN"
| "js_mul _ NaN = NaN"
| "js_mul (Fin a) (Fin b) = Fin (a * b)"
| "js_mul a b =
     (let s = js_sign a * js_sign b
      in if s = 0 then NaN else if 0 < s then PInf else NInf)"

fun js_div :: "number \<Rightarrow> number \<Rightarrow> number" where
  "js_div NaN _ = NaN"
| "js_div _ NaN = NaN"
| "js_div (Fin a) (Fin b) =
     (if b = 0 then (if a = 0 then NaN else if 0 < a then PInf else NInf)
      else Fin (a / b))"
| "js_div (Fin a) _ = Fin 0"
| "js_div PInf (Fin b) = (if b < 0 then NInf else PInf)"
| "js_div NInf (Fin b) = (if b < 0 then PInf else NInf)"
| "js_div _ _ = NaN"

text \<open>\<open>a > b\<close>: false whenever an operand is \<open>NaN\<close>.\<close>

fun js_gt :: "number \<Rightarrow> number \<Rightarrow> bool" where
  "js_gt NaN _ = False"
| "js_gt _ NaN = False"
| "js_gt (Fin a) (Fin b) = (b < a)"
| "js_gt PInf b = (b \<noteq> PInf)"
| "js_gt NInf _ = False"
| "js_gt (Fin a) b = (b = NInf)"

definition js_lt :: "number \<Rightarrow> number \<Rightarrow> bool" where
  "js_lt a b = js_gt b a"

text \<open>\<open>a <= b\<close>: false whenever an operand is \<open>NaN\<close>.\<close>

definition js_le :: "number \<Rightarrow> number \<Rightarrow> bool" where
  "js_le a b = (a \<noteq> NaN \<and> b \<noteq> NaN \<and> \<not> js_gt a b)"

text \<open>Truthiness of a number: \<open>0\<close> and \<open>NaN\<close> are falsy. \<open>a || b\<close> on numbers.\<close>

fun truthy :: "number \<Rightarrow> bool" where
  "truthy (Fin a) = (a \<noteq> 0)"
| "truthy NaN = False"
| "truthy _ = True"

definition js_or :: "number \<Rightarrow> number \<Rightarrow> number" where
  "js_or a b = (if truthy a then a else b)"

section \<open>Strings: \<open>parseFloat\<close>, \<open>toLowerCase\<close>, \<open>includes\<close>\<close>

text \<open>
  Strings are byte lists. \<open>str_includes s n\<close> is \<open>s.includes(n)\<close>; \<open>toLowerCase\<close> maps
  the ASCII capitals, which is all that can produce the ASCII needles searched for below.
\<close>

primrec is_prefix :: "string \<Rightarrow> string \<Rightarrow> bool" where
  "is_prefix [] s = True"
| "is_prefix (c # cs) s = (case s of [] \<Rightarrow> False | d # ds \<Rightarrow> c = d \<and> is_prefix cs ds)"

primrec str_includes :: "string \<Rightarrow> string \<Rightarrow> bool" where
  "str_includes [] n = (n = [])"
| "str_includes (c # cs) n = (is_prefix n (c # cs) \<or> str_includes cs n)"

definition lower_char :: "char \<Rightarrow> char" where
  "lower_char c =
     (case map_of (zip ''ABCDEFGHIJKLMNOPQRSTUVWXYZ'' ''abcdefghijklmnopqrstuvwxyz'') c of
        None \<Rightarrow> c | Some d \<Rightarrow> d)"

definition toLowerCase :: "string \<Rightarrow> string" where
  "toLowerCase s = map lower_char s"

definition is_digit :: "char \<Rightarrow> bool" where
  "is_digit c = (c \<in> set ''0123456789'')"

definition digit_val :: "char \<Rightarrow> nat" where
  "digit_val c = (case map_of (zip ''0123456789'' [0, 1, 2, 3, 4, 5, 6, 7, 8, 9]) c of
     None \<Rightarrow> 0 | Some d \<Rightarrow> d)"

definition digits_val :: "string \<Rightarrow> nat" where
  "digits_val ds = foldl (\<lambda>a c. 10 * a + digit_val c) 0 ds"

definition is_space :: "char \<Rightarrow> bool" where
  "is_space c = (c \<in> set [CHR '' '', CHR 0x09, CHR 0x0A, CHR 0x0B, CHR 0x0C, CHR 0x0D])"

text \<open>
  The exponent part of a decimal literal: \<open>e\<close> or \<open>E\<close>, an optional sign and at least one
  digit; anything else is no exponent and is ignored like all trailing text.
\<close>

definition exponent_part :: "string \<Rightarrow> int" where
  "exponent_part s =
     (case s of
        [] \<Rightarrow> 0
      | c # r \<Rightarrow>
          if c = CHR ''e'' \<or> c = CHR ''E'' then
            (let (neg, u) = (case r of [] \<Rightarrow> (False, r)
                             | d # t \<Rightarrow> if d = CHR ''-'' then (True, t)
                                        else if d = CHR ''+'' then (False, t) else (False, r));
                 ds = takeWhile is_digit u
             in if ds = [] then 0
                else if neg then - int (digits_val ds) else int (digits_val ds))
          else 0)"

definition scale10 :: "real \<Rightarrow> int \<Rightarrow> real" where
  "scale10 m e = (if 0 \<le> e then m * 10 ^ nat e else m / 10 ^ nat (- e))"

text \<open>
  \<open>parseFloat\<close> of a string: leading white space is skipped (the ASCII white space;
  the multi-byte spaces of Unicode are not modelled), then the longest prefix that is a
  decimal literal (sign, \<open>Infinity\<close>, or digits with an optional fraction and exponent)
  is the value; with no such prefix the result is \<open>NaN\<close>.
\<close>

definition parseFloat :: "string \<Rightarrow> number" where
  "parseFloat s =
     (let t = dropWhile is_space s;
          (neg, u) = (case t of [] \<Rightarrow> (False, t)
                      | c # r \<Rightarrow> if c = CHR ''-'' then (True, r)
                                 else if c = CHR ''+'' then (False, r) else (False, t))
      in if is_prefix ''Infinity'' u then (if neg then NInf else PInf)
         else
           (let ip = takeWhile is_digit u;
                r1 = dropWhile is_digit u;
                (fp, r2) = (case r1 of [] \<Rightarrow> ([], r1)
                            | c # r \<Rightarrow> if c = CHR ''.''
                                       then (takeWhile is_digit r, dropWhile is_digit r)
                                       else ([], r1))
            in if ip = [] \<and> fp = [] then NaN
               else
                 (let m = real (digits_val (ip @ fp)) / 10 ^ length fp;
                      v = scale10 m (exponent_part r2)
                  in Fin (if neg then - v else v))))"

text \<open>
  A field of a parsed CSV row is a string, or \<open>undefined\<close> (\<open>None\<close>) when the file has no
  such column; \<open>parseFloat(undefined)\<close> is \<open>NaN\<close>.
\<close>

definition parseFloat_field :: "string option \<Rightarrow> number" where
  "parseFloat_field f = (case f of None \<Rightarrow> NaN | Some s \<Rightarrow> parseFloat s)"

section \<open>Objects used as dictionaries\<close>

text \<open>
  \<open>salesByState\<close> and \<open>salesByTaxSlab\<close> are plain objects. An object is modelled by the list
  of its own properties in insertion order. A tax rate used as a property name is
  converted to a string by the language; different numbers give different names, none of
  them the name of a member of \<open>Object.prototype\<close>, so the model keys \<open>salesByTaxSlab\<close> by
  the number itself.
\<close>

type_synonym ('k, 'v) obj = "('k \<times> 'v) list"

fun obj_set :: "('k, 'v) obj \<Rightarrow> 'k \<Rightarrow> 'v \<Rightarrow> ('k, 'v) obj" where
  "obj_set [] k v = [(k, v)]"
| "obj_set ((k', v') # m) k v =
     (if k' = k then (k, v) # m else (k', v') # obj_set m k v)"

text \<open>
  \<open>if (!m[k]) m[k] = 0; m[k] += a\<close>. A missing property reads as \<open>undefined\<close>, which is
  falsy, as are \<open>0\<close> and \<open>NaN\<close>; \<open>undefined + a\<close> would be \<open>NaN\<close>.
\<close>

definition add_to :: "('k, number) obj \<Rightarrow> 'k \<Rightarrow> number \<Rightarrow> ('k, number) obj" where
  "add_to m k a =
     (let m0 = (if (case map_of m k of None \<Rightarrow> True | Some v \<Rightarrow> \<not> truthy v)
                then obj_set m k (Fin 0) else m)
      in obj_set m0 k (case map_of m0 k of None \<Rightarrow> NaN | Some v \<Rightarrow> js_add v a))"

text \<open>
  A state label can be the name of a member of \<open>Object.prototype\<close>, and then the read
  \<open>salesByState[state]\<close> finds the inherited member, which is truthy, so \<open>= 0\<close> is skipped.
  \<^item> For \<open>__proto__\<close> the \<open>+=\<close> builds a text and hands it to the inherited setter, which
    ignores a value that is neither an object nor \<open>null\<close>: no property is created and the
    object stays as it was.
  \<^item> For the other names the inherited member is a function; \<open>+=\<close> creates an own property
    (or updates it in place) holding a text, the source of the function followed by the
    amounts. The model stores \<open>NaN\<close> for that text: like \<open>NaN\<close>, the text compares false
    against every number in both directions. The characters of the text, and with them
    the order between two such texts, are not modelled; no statement below depends on
    the value stored for such a label.
\<close>

definition inherited_names :: "string list" where
  "inherited_names =
     [''constructor'', ''__defineGetter__'', ''__defineSetter__'', ''hasOwnProperty'',
      ''__lookupGetter__'', ''__lookupSetter__'', ''isPrototypeOf'',
      ''propertyIsEnumerable'', ''toString'', ''valueOf'', ''toLocaleString'']"

definition add_to_state :: "(string, number) obj \<Rightarrow> string \<Rightarrow> number \<Rightarrow> (string, number) obj" where
  "add_to_state m st a =
     (if st = ''__proto__'' then m
      else if st \<in> set inherited_names then obj_set m st NaN
      else add_to m st a)"

text \<open>
  \<open>Object.keys\<close>: the property names that are array indices (canonical decimal numerals
  below \<open>2^32 - 1\<close>) come first in ascending numeric order, then all other names in
  insertion order. \<open>ix\<close> gives the array index a key stands for, if any.
\<close>

definition Object_keys :: "('k \<Rightarrow> nat option) \<Rightarrow> ('k, 'v) obj \<Rightarrow> 'k list" where
  "Object_keys ix m =
     sort_key (\<lambda>k. case ix k of None \<Rightarrow> 0 | Some i \<Rightarrow> i) [k \<leftarrow> map fst m. ix k \<noteq> None]
     @ [k \<leftarrow> map fst m. ix k = None]"

definition string_index :: "string \<Rightarrow> nat option" where
  "string_index s =
     (if s \<noteq> [] \<and> (\<forall>c \<in> set s. is_digit c) \<and> (length s = 1 \<or> hd s \<noteq> CHR ''0'')
         \<and> digits_val s < 4294967295
      then Some (digits_val s) else None)"

fun number_index :: "number \<Rightarrow> nat option" where
  "number_index (Fin r) =
     (if 0 \<le> r \<and> r < 4294967295 \<and> r = of_int \<lfloor>r\<rfloor> then Some (nat \<lfloor>r\<rfloor>) else None)"
| "number_index _ = None"

section \<open>Tax aggregation: \<open>calculateTaxes\<close> and \<open>calculateGST\<close>\<close>

record saleRow =
  amount :: "string option"
  taxRate :: "string option"
  state :: "string option"
  product :: "string option"

record TaxCalculation =
  totalSales :: number
  cgst :: number
  sgst :: number
  igst :: number
  totalTax :: number
  salesByState :: "(string, number) obj"
  salesByTaxSlab :: "(number, number) obj"

text \<open>The local variables that the \<open>forEach\<close> callback updates.\<close>

record tax_vars =
  v_totalSales :: number
  v_cgst :: number
  v_sgst :: number
  v_igst :: number
  v_salesByState :: "(string, number) obj"
  v_salesByTaxSlab :: "(number, number) obj"

definition determineTaxRate :: "saleRow \<Rightarrow> number" where
  "determineTaxRate sale =
     (let p = toLowerCase (case product sale of None \<Rightarrow> [] | Some s \<Rightarrow> s)
      in if str_includes p ''essential'' \<or> str_includes p ''food'' then Fin 0
         else if str_includes p ''common'' \<or> str_includes p ''basic'' then Fin 5
         else if str_includes p ''standard'' \<or> str_includes p ''processed'' then Fin 12
         else if str_includes p ''luxury'' \<or> str_includes p ''premium'' then Fin 28
         else Fin 18)"

text \<open>\<open>parseFloat(sale.amount) || 0\<close>\<close>

definition sale_amount :: "saleRow \<Rightarrow> number" where
  "sale_amount sale = js_or (parseFloat_field (amount sale)) (Fin 0)"

text \<open>
  \<open>parseFloat(sale.taxRate) || fallback\<close>, where the fallback is
  \<open>this.determineTaxRate(sale)\<close> in \<open>calculateTaxes\<close> and \<open>18\<close> in \<open>calculateGST\<close>.
\<close>

definition sale_taxRate :: "(saleRow \<Rightarrow> number) \<Rightarrow> saleRow \<Rightarrow> number" where
  "sale_taxRate fallback sale = js_or (parseFloat_field (taxRate sale)) (fallback sale)"

text \<open>\<open>sale.state || 'Unknown'\<close>: a missing and an empty label are both falsy.\<close>

definition sale_state :: "saleRow \<Rightarrow> string" where
  "sale_state sale =
     (case state sale of None \<Rightarrow> ''Unknown'' | Some s \<Rightarrow> if s = [] then ''Unknown'' else s)"

text \<open>\<open>amount * (taxRate / 100)\<close>\<close>

definition taxAmount :: "(saleRow \<Rightarrow> number) \<Rightarrow> saleRow \<Rightarrow> number" where
  "taxAmount fallback sale =
     js_mul (sale_amount sale) (js_div (sale_taxRate fallback sale) (Fin 100))"

text \<open>The body of the \<open>forEach\<close> callback, the same in both servers up to the fallback.\<close>

definition sale_step :: "(saleRow \<Rightarrow> number) \<Rightarrow> tax_vars \<Rightarrow> saleRow \<Rightarrow> tax_vars" where
  "sale_step fallback v sale =
     (let a = sale_amount sale;
          r = sale_taxRate fallback sale;
          st = sale_state sale;
          v1 = v\<lparr>v_totalSales := js_add (v_totalSales v) a,
                 v_salesByState := add_to_state (v_salesByState v) st a,
                 v_salesByTaxSlab := add_to (v_salesByTaxSlab v) r a\<rparr>
      in if st = ''Home State''
         then (let t = js_mul a (js_div r (Fin 100))
               in v1\<lparr>v_cgst := js_add (v_cgst v1) (js_div t (Fin 2)),
                      v_sgst := js_add (v_sgst v1) (js_div t (Fin 2))\<rparr>)
         else v1\<lparr>v_igst := js_add (v_igst v1) (js_mul a (js_div r (Fin 100)))\<rparr>)"

definition init_vars :: tax_vars where
  "init_vars = \<lparr>v_totalSales = Fin 0, v_cgst = Fin 0, v_sgst = Fin 0, v_igst = Fin 0,
                 v_salesByState = [], v_salesByTaxSlab = []\<rparr>"

definition result_of :: "tax_vars \<Rightarrow> TaxCalculation" where
  "result_of v =
     \<lparr>totalSales = v_totalSales v, cgst = v_cgst v, sgst = v_sgst v, igst = v_igst v,
      totalTax = js_add (js_add (v_cgst v) (v_sgst v)) (v_igst v),
      salesByState = v_salesByState v, salesByTaxSlab = v_salesByTaxSlab v\<rparr>"

definition aggregate :: "(saleRow \<Rightarrow> number) \<Rightarrow> saleRow list \<Rightarrow> TaxCalculation" where
  "aggregate fallback salesData = result_of (foldl (sale_step fallback) init_vars salesData)"

text \<open>\<open>TaxComplianceAgent.calculateTaxes\<close> of newserver.js.\<close>

definition calculateTaxes :: "saleRow list \<Rightarrow> TaxCalculation" where
  "calculateTaxes salesData = aggregate determineTaxRate salesData"

text \<open>\<open>calculateGST\<close> of server.js.\<close>

definition calculateGST :: "saleRow list \<Rightarrow> TaxCalculation" where
  "calculateGST salesData = aggregate (\<lambda>sale. Fin 18) salesData"

section \<open>Business pattern analysis\<close>

datatype js_error = TypeError

text \<open>The \<open>name\<close> of the error object, which tells its class.\<close>

definition error_name :: "js_error \<Rightarrow> string" where
  "error_name e = (case e of TypeError \<Rightarrow> ''TypeError'')"

text \<open>
  \<open>xs.reduce(f)\<close> without an initial value: the first element starts the accumulator, and
  an empty array raises a \<open>TypeError\<close>.
\<close>

fun reduce1 :: "('a \<Rightarrow> 'a \<Rightarrow> 'a) \<Rightarrow> 'a list \<Rightarrow> js_error + 'a" where
  "reduce1 f [] = Inl TypeError"
| "reduce1 f (x # xs) = Inr (foldl f x xs)"

text \<open>\<open>m[k]\<close> read as a number: a missing property is \<open>undefined\<close>, which compares as \<open>NaN\<close>.\<close>

definition obj_num :: "('k, number) obj \<Rightarrow> 'k \<Rightarrow> number" where
  "obj_num m k = (case map_of m k of None \<Rightarrow> NaN | Some v \<Rightarrow> v)"

text \<open>\<open>Object.keys(m).reduce((a, b) => m[a] > m[b] ? a : b)\<close>\<close>

definition primary_key :: "('k \<Rightarrow> nat option) \<Rightarrow> ('k, number) obj \<Rightarrow> js_error + 'k" where
  "primary_key ix m =
     reduce1 (\<lambda>a b. if js_gt (obj_num m a) (obj_num m b) then a else b) (Object_keys ix m)"

text \<open>
  \<open>last_maximum v ks p\<close>: \<open>p\<close> occurs in the key list \<open>ks\<close>, no key has a greater value than
  \<open>p\<close>, and every key behind \<open>p\<close> has a strictly smaller one.
\<close>

definition last_maximum :: "('k \<Rightarrow> number) \<Rightarrow> 'k list \<Rightarrow> 'k \<Rightarrow> bool" where
  "last_maximum v ks p \<longleftrightarrow>
     (\<exists>pre post. ks = pre @ p # post
        \<and> (\<forall>k \<in> set pre. js_le (v k) (v p))
        \<and> (\<forall>k \<in> set post. js_gt (v p) (v k)))"

record BusinessAnalysis =
  primaryTaxSlab :: number
  primaryState :: string
  averageTransaction :: number
  businessSize :: string
  complianceRisk :: string

definition classifyBusinessSize :: "number \<Rightarrow> string" where
  "classifyBusinessSize monthlySales =
     (if js_lt monthlySales (Fin 100000) then ''Micro''
      else if js_lt monthlySales (Fin 1000000) then ''Small''
      else if js_lt monthlySales (Fin 5000000) then ''Medium''
      else ''Large'')"

text \<open>The value of the local \<open>riskScore\<close> when \<open>assessComplianceRisk\<close> returns.\<close>

definition riskScore :: "TaxCalculation \<Rightarrow> nat" where
  "riskScore taxCalculation =
     (let s0 = 0;
          s1 = (if js_gt (igst taxCalculation) (Fin 0) then s0 + 1 else s0);
          s2 = (if 3 < length (Object_keys number_index (salesByTaxSlab taxCalculation))
                then s1 + 1 else s1);
          s3 = (if js_gt (js_div (totalTax taxCalculation) (totalSales taxCalculation))
                     (Fin (15 / 100))
                then s2 + 1 else s2)
      in s3)"

definition assessComplianceRisk :: "saleRow list \<Rightarrow> TaxCalculation \<Rightarrow> string" where
  "assessComplianceRisk salesData taxCalculation =
     (let s = riskScore taxCalculation
      in if s < 2 then ''Low'' else if s < 4 then ''Medium'' else ''High'')"

definition analyzeBusinessPatterns ::
  "saleRow list \<Rightarrow> TaxCalculation \<Rightarrow> js_error + BusinessAnalysis" where
  "analyzeBusinessPatterns salesData taxCalculation =
     (case primary_key number_index (salesByTaxSlab taxCalculation) of
        Inl e \<Rightarrow> Inl e
      | Inr slab \<Rightarrow>
          (case primary_key string_index (salesByState taxCalculation) of
             Inl e \<Rightarrow> Inl e
           | Inr st \<Rightarrow>
               Inr \<lparr>primaryTaxSlab = slab,
                    primaryState = st,
                    averageTransaction =
                      js_div (totalSales taxCalculation) (Fin (real (length salesData))),
                    businessSize = classifyBusinessSize (totalSales taxCalculation),
                    complianceRisk = assessComplianceRisk salesData taxCalculation\<rparr>))"

section \<open>Compliance check and deadlines\<close>

text \<open>
  A local calendar date as \<open>getFullYear\<close>, \<open>getMonth\<close> (0 to 11) and \<open>getDate\<close> read it.
  \<open>newDate y m d\<close> is \<open>new Date(y, m, d)\<close>: a year from 0 to 99 means 1900 plus that
  year, and a month outside 0 to 11 carries into the year. The code only builds days 1, 10
  and 20, which exist in every month, so no day ever carries into the month.
\<close>

record js_date =
  getFullYear :: int
  getMonth :: int
  getDate :: int

definition newDate :: "int \<Rightarrow> int \<Rightarrow> int \<Rightarrow> js_date" where
  "newDate y m d =
     (let yr = (if 0 \<le> y \<and> y \<le> 99 then 1900 + y else y)
      in \<lparr>getFullYear = yr + m div 12, getMonth = m mod 12, getDate = d\<rparr>)"

record Deadlines =
  gstr1 :: js_date
  gstr3b :: js_date
  payment :: js_date

text \<open>\<open>now\<close> is the reading of the clock, \<open>new Date()\<close>.\<close>

definition calculateDeadlines :: "js_date \<Rightarrow> Deadlines" where
  "calculateDeadlines now =
     (let nextMonth = newDate (getFullYear now) (getMonth now + 1) 1
      in \<lparr>gstr1 = newDate (getFullYear nextMonth) (getMonth nextMonth) 10,
          gstr3b = newDate (getFullYear nextMonth) (getMonth nextMonth) 20,
          payment = newDate (getFullYear nextMonth) (getMonth nextMonth) 20\<rparr>)"

record ComplianceCheck =
  applicableReturns :: "string list"
  deadlines :: Deadlines
  itcEligibility :: bool
  specialSchemes :: "string list"
  riskAreas :: "string list"

text \<open>
  \<open>checkCompliance\<close> also calls \<open>retrieveRelevantKnowledge\<close> and drops what it returns
  (\<open>relevantLaws\<close> is never read). That call returns, since the index and the corpus are
  filled in step, so the result depends on the analysis and the clock only.
\<close>

definition checkCompliance :: "js_date \<Rightarrow> BusinessAnalysis \<Rightarrow> ComplianceCheck" where
  "checkCompliance now businessAnalysis =
     \<lparr>applicableReturns = [''GSTR-1'', ''GSTR-3B''],
      deadlines = calculateDeadlines now,
      itcEligibility = (complianceRisk businessAnalysis = ''Low''),
      specialSchemes =
        (if businessSize businessAnalysis = ''Micro'' then [''Composition Scheme''] else []),
      riskAreas =
        (if complianceRisk businessAnalysis \<noteq> ''Low''
         then [''Interstate Sales'', ''Multiple Tax Rates''] else [])\<rparr>"

section \<open>Compliance plan\<close>

text \<open>\<open>xs.join(sep)\<close>\<close>

fun join :: "string \<Rightarrow> string list \<Rightarrow> string" where
  "join sep [] = []"
| "join sep [x] = x"
| "join sep (x # y # ys) = x @ sep @ join sep (y # ys)"

definition nl :: string where
  "nl = [CHR 0x0A]"

definition plan_prompt :: "BusinessAnalysis \<Rightarrow> ComplianceCheck \<Rightarrow> string" where
  "plan_prompt businessAnalysis complianceCheck =
     ''Create a comprehensive 3-month GST compliance plan for a ''
       @ businessSize businessAnalysis @ '' business '' @ nl
     @ ''    with '' @ complianceRisk businessAnalysis @ '' compliance risk. Focus on: ''
       @ join '', '' (riskAreas complianceCheck) @ ''. '' @ nl
     @ ''    Include monthly actions, deadlines, and risk mitigation strategies.''"

text \<open>
  The fallback template. \<open>toDateString\<close> is the method of the language's \<open>Date\<close>; the plan
  is built for whatever text it gives.
\<close>

definition fallback_plan ::
  "(js_date \<Rightarrow> string) \<Rightarrow> BusinessAnalysis \<Rightarrow> ComplianceCheck \<Rightarrow> string" where
  "fallback_plan toDateString businessAnalysis complianceCheck =
     ''COMPLIANCE PLAN FOR '' @ businessSize businessAnalysis @ '' BUSINESS:'' @ nl
     @ ''    '' @ nl
     @ ''    Month 1:'' @ nl
     @ ''    - File GSTR-1 by '' @ toDateString (gstr1 (deadlines complianceCheck)) @ nl
     @ ''    - File GSTR-3B by '' @ toDateString (gstr3b (deadlines complianceCheck)) @ nl
     @ ''    - Pay taxes by '' @ toDateString (payment (deadlines complianceCheck)) @ nl
     @ ''    - Reconcile input tax credit claims'' @ nl
     @ ''    '' @ nl
     @ ''    Month 2:'' @ nl
     @ ''    - Review compliance with new 2024 regulations'' @ nl
     @ ''    - Optimize tax strategy based on sales patterns'' @ nl
     @ ''    - Prepare for upcoming deadlines'' @ nl
     @ ''    '' @ nl
     @ ''    Month 3:'' @ nl
     @ ''    - Conduct compliance health check'' @ nl
     @ ''    - Plan for next quarter based on business trends'' @ nl
     @ ''    - Consider '' @ join '', '' (specialSchemes complianceCheck) @ '' if applicable''"

text \<open>
  The text-generation collaborator: \<open>genAI\<close> is \<open>None\<close> when no client was configured;
  otherwise it maps the prompt to the generated text, or to the exception that any step
  inside the \<open>try\<close> block raised. The \<open>catch\<close> logs the exception and falls through.
\<close>

definition generateCompliancePlan ::
  "(js_date \<Rightarrow> string) \<Rightarrow> (string \<Rightarrow> 'e + string) option \<Rightarrow>
     BusinessAnalysis \<Rightarrow> ComplianceCheck \<Rightarrow> string" where
  "generateCompliancePlan toDateString genAI businessAnalysis complianceCheck =
     (case genAI of
        None \<Rightarrow> fallback_plan toDateString businessAnalysis complianceCheck
      | Some generate \<Rightarrow>
          (case generate (plan_prompt businessAnalysis complianceCheck) of
             Inr text \<Rightarrow> text
           | Inl error \<Rightarrow> fallback_plan toDateString businessAnalysis complianceCheck))"

section \<open>Knowledge retrieval\<close>

record KnowledgeDocument =
  kd_id :: string
  content :: string
  tags :: "string list"

record Retrieved =
  document :: KnowledgeDocument
  relevance :: number
  r_id :: string

text \<open>
  The callback of \<open>tfidf.tfidfs(query, ...)\<close>, run for the measures of the documents
  \<open>i, i + 1, ...\<close>: a positive measure pushes a result for \<open>gstKnowledgeDocuments[i]\<close>.
  Reading \<open>doc.id\<close> of a missing document raises a \<open>TypeError\<close>.
\<close>

fun collect :: "KnowledgeDocument list \<Rightarrow> nat \<Rightarrow> number list \<Rightarrow> js_error + Retrieved list" where
  "collect docs i [] = Inr []"
| "collect docs i (msr # ms) =
     (if js_gt msr (Fin 0) then
        (if i < length docs then
           (case collect docs (Suc i) ms of
              Inl e \<Rightarrow> Inl e
            | Inr rs \<Rightarrow>
                Inr (\<lparr>document = docs ! i, relevance = msr, r_id = kd_id (docs ! i)\<rparr> # rs))
         else Inl TypeError)
      else collect docs (Suc i) ms)"

text \<open>
  \<open>results.sort((a, b) => b.relevance - a.relevance)\<close>. The sort of the language is stable,
  so with this comparator its result is determined; it is computed here by insertion from
  the right, an element moving behind those the comparator puts strictly before it.
\<close>

fun insort_rel :: "Retrieved \<Rightarrow> Retrieved list \<Rightarrow> Retrieved list" where
  "insort_rel x [] = [x]"
| "insort_rel x (y # ys) =
     (if js_gt (js_sub (relevance y) (relevance x)) (Fin 0)
      then y # insort_rel x ys else x # y # ys)"

definition sort_rel :: "Retrieved list \<Rightarrow> Retrieved list" where
  "sort_rel xs = foldr insort_rel xs []"

text \<open>\<open>xs.slice(0, n)\<close>: a negative \<open>n\<close> counts from the end.\<close>

definition slice0 :: "'a list \<Rightarrow> int \<Rightarrow> 'a list" where
  "slice0 xs n = (if n < 0 then take (length xs - nat (- n)) xs else take (nat n) xs)"

text \<open>
  \<open>tfidfs query\<close> is the list of measures that the \<open>TfIdf\<close> index of the \<open>natural\<close> package
  reports for the query, one for each indexed document in order; \<open>docs\<close> is
  \<open>gstKnowledgeDocuments\<close>.
\<close>

definition retrieveRelevantKnowledge ::
  "(string \<Rightarrow> number list) \<Rightarrow> KnowledgeDocument list \<Rightarrow> string \<Rightarrow> int \<Rightarrow>
     js_error + Retrieved list" where
  "retrieveRelevantKnowledge tfidfs docs query maxResults =
     (case collect docs 0 (tfidfs query) of
        Inl e \<Rightarrow> Inl e
      | Inr results \<Rightarrow> Inr (slice0 (sort_rel results) maxResults))"

section \<open>Evaluation lemmas\<close>

lemmas parse_defs = parseFloat_field_def parseFloat_def is_space_def is_digit_def
  digits_val_def digit_val_def exponent_part_def scale10_def

lemmas sale_defs = sale_amount_def sale_taxRate_def sale_state_def js_or_def taxAmount_def

lemmas aggregate_defs = aggregate_def result_of_def init_vars_def sale_step_def add_to_def
  add_to_state_def inherited_names_def Let_def

lemma parseFloat_0 [simp]: "parseFloat ''0'' = Fin 0"
  by (simp add: parse_defs)

lemma parseFloat_5 [simp]: "parseFloat ''5'' = Fin 5"
  by (simp add: parse_defs)

lemma parseFloat_12 [simp]: "parseFloat ''12'' = Fin 12"
  by (simp add: parse_defs)

lemma parseFloat_18 [simp]: "parseFloat ''18'' = Fin 18"
  by (simp add: parse_defs)

lemma parseFloat_28 [simp]: "parseFloat ''28'' = Fin 28"
  by (simp add: parse_defs)

lemma parseFloat_100 [simp]: "parseFloat ''100'' = Fin 100"
  by (simp add: parse_defs)

lemma parseFloat_minus_100 [simp]: "parseFloat ''-100'' = Fin (- 100)"
  by (simp add: parse_defs)

lemma parseFloat_1000 [simp]: "parseFloat ''1000'' = Fin 1000"
  by (simp add: parse_defs)

lemma parseFloat_2000 [simp]: "parseFloat ''2000'' = Fin 2000"
  by (simp add: parse_defs)

lemma determineTaxRate_no_product [simp]:
  "determineTaxRate \<lparr>amount = a, taxRate = r, state = s, product = None\<rparr> = Fin 18"
  by (simp add: determineTaxRate_def toLowerCase_def)

lemma determineTaxRate_widget [simp]:
  "determineTaxRate \<lparr>amount = a, taxRate = r, state = s, product = Some ''widget''\<rparr> = Fin 18"
  by (simp add: determineTaxRate_def toLowerCase_def lower_char_def)

section \<open>Tax aggregation\<close>

lemma half_twice: "js_add (js_div t (Fin 2)) (js_div t (Fin 2)) = t"
  by (cases t) simp_all

lemma sale_state_home:
  "sale_state sale = ''Home State'' \<longleftrightarrow> state sale = Some ''Home State''"
  by (simp add: sale_state_def split: option.splits)

lemma aggregate_total:
  "totalTax (aggregate fb rows) =
     js_add (js_add (cgst (aggregate fb rows)) (sgst (aggregate fb rows)))
       (igst (aggregate fb rows))"
  by (simp add: aggregate_def result_of_def)

lemma aggregate_snoc_cgst:
  "cgst (aggregate fb (rows @ [sale])) =
     (if sale_state sale = ''Home State''
      then js_add (cgst (aggregate fb rows)) (js_div (taxAmount fb sale) (Fin 2))
      else cgst (aggregate fb rows))"
  by (simp add: aggregate_def result_of_def sale_step_def Let_def taxAmount_def)

lemma aggregate_snoc_sgst:
  "sgst (aggregate fb (rows @ [sale])) =
     (if sale_state sale = ''Home State''
      then js_add (sgst (aggregate fb rows)) (js_div (taxAmount fb sale) (Fin 2))
      else sgst (aggregate fb rows))"
  by (simp add: aggregate_def result_of_def sale_step_def Let_def taxAmount_def)

lemma aggregate_snoc_igst:
  "igst (aggregate fb (rows @ [sale])) =
     (if sale_state sale = ''Home State''
      then igst (aggregate fb rows)
      else js_add (igst (aggregate fb rows)) (taxAmount fb sale))"
  by (simp add: aggregate_def result_of_def sale_step_def Let_def taxAmount_def)

text \<open>
  C1. In both servers the result's \<open>totalTax\<close> is the value of \<open>cgst + sgst + igst\<close> (it
  is \<open>NaN\<close> when that sum is), and appending one record to the input changes exactly one
  side: a record whose state is \<open>Home State\<close> adds
  half of its tax amount \<open>amount * (taxRate / 100)\<close> to \<open>cgst\<close> and half to \<open>sgst\<close> (the
  two halves add up to the tax amount) and leaves \<open>igst\<close> as it was; any other record, a
  missing or empty state included, adds its tax amount to \<open>igst\<close> and leaves \<open>cgst\<close> and
  \<open>sgst\<close> as they were.
\<close>

theorem tax_split_by_state:
  "totalTax (calculateTaxes salesData) =
     js_add (js_add (cgst (calculateTaxes salesData)) (sgst (calculateTaxes salesData)))
       (igst (calculateTaxes salesData))
   \<and> totalTax (calculateGST salesData) =
     js_add (js_add (cgst (calculateGST salesData)) (sgst (calculateGST salesData)))
       (igst (calculateGST salesData))
   \<and> (sale_state sale = ''Home State'' \<longleftrightarrow> state sale = Some ''Home State'')
   \<and> js_add (js_div (taxAmount determineTaxRate sale) (Fin 2))
        (js_div (taxAmount determineTaxRate sale) (Fin 2)) = taxAmount determineTaxRate sale
   \<and> js_add (js_div (taxAmount (\<lambda>s. Fin 18) sale) (Fin 2))
        (js_div (taxAmount (\<lambda>s. Fin 18) sale) (Fin 2)) = taxAmount (\<lambda>s. Fin 18) sale
   \<and> cgst (calculateTaxes (salesData @ [sale])) =
       (if sale_state sale = ''Home State''
        then js_add (cgst (calculateTaxes salesData))
               (js_div (taxAmount determineTaxRate sale) (Fin 2))
        else cgst (calculateTaxes salesData))
   \<and> sgst (calculateTaxes (salesData @ [sale])) =
       (if sale_state sale = ''Home State''
        then js_add (sgst (calculateTaxes salesData))
               (js_div (taxAmount determineTaxRate sale) (Fin 2))
        else sgst (calculateTaxes salesData))
   \<and> igst (calculateTaxes (salesData @ [sale])) =
       (if sale_state sale = ''Home State''
        then igst (calculateTaxes salesData)
        else js_add (igst (calculateTaxes salesData)) (taxAmount determineTaxRate sale))
   \<and> cgst (calculateGST (salesData @ [sale])) =
       (if sale_state sale = ''Home State''
        then js_add (cgst (calculateGST salesData))
               (js_div (taxAmount (\<lambda>s. Fin 18) sale) (Fin 2))
        else cgst (calculateGST salesData))
   \<and> sgst (calculateGST (salesData @ [sale])) =
       (if sale_state sale = ''Home State''
        then js_add (sgst (calculateGST salesData))
               (js_div (taxAmount (\<lambda>s. Fin 18) sale) (Fin 2))
        else sgst (calculateGST salesData))
   \<and> igst (calculateGST (salesData @ [sale])) =
       (if sale_state sale = ''Home State''
        then igst (calculateGST salesData)
        else js_add (igst (calculateGST salesData)) (taxAmount (\<lambda>s. Fin 18) sale))"
  unfolding calculateTaxes_def calculateGST_def
  using aggregate_total [of determineTaxRate salesData]
    aggregate_total [of "\<lambda>s. Fin 18" salesData]
    sale_state_home [of sale]
    half_twice [of "taxAmount determineTaxRate sale"]
    half_twice [of "taxAmount (\<lambda>s. Fin 18) sale"]
    aggregate_snoc_cgst [of determineTaxRate salesData sale]
    aggregate_snoc_sgst [of determineTaxRate salesData sale]
    aggregate_snoc_igst [of determineTaxRate salesData sale]
    aggregate_snoc_cgst [of "\<lambda>s. Fin 18" salesData sale]
    aggregate_snoc_sgst [of "\<lambda>s. Fin 18" salesData sale]
    aggregate_snoc_igst [of "\<lambda>s. Fin 18" salesData sale]
  by blast

theorem tax_split_by_state_witness:
  "sale_state \<lparr>amount = Some ''1000'', taxRate = Some ''18'', state = Some ''Home State'',
      product = None\<rparr> = ''Home State''
   \<and> cgst (calculateTaxes [\<lparr>amount = Some ''1000'', taxRate = Some ''18'',
        state = Some ''Home State'', product = None\<rparr>]) = Fin 90
   \<and> sale_state \<lparr>amount = Some ''2000'', taxRate = Some ''18'', state = Some ''Other'',
      product = None\<rparr> \<noteq> ''Home State''
   \<and> igst (calculateTaxes [\<lparr>amount = Some ''1000'', taxRate = Some ''18'',
        state = Some ''Home State'', product = None\<rparr>,
        \<lparr>amount = Some ''2000'', taxRate = Some ''18'', state = Some ''Other'',
        product = None\<rparr>]) = Fin 360
   \<and> cgst (calculateTaxes [\<lparr>amount = Some ''1000'', taxRate = Some ''18'',
        state = Some ''Home State'', product = None\<rparr>,
        \<lparr>amount = Some ''2000'', taxRate = Some ''18'', state = Some ''Other'',
        product = None\<rparr>]) = Fin 90"
  using tax_split_by_state [of "[]" "\<lparr>amount = Some ''1000'', taxRate = Some ''18'',
        state = Some ''Home State'', product = None\<rparr>"]
    tax_split_by_state [of "[\<lparr>amount = Some ''1000'', taxRate = Some ''18'',
        state = Some ''Home State'', product = None\<rparr>]"
      "\<lparr>amount = Some ''2000'', taxRate = Some ''18'', state = Some ''Other'',
        product = None\<rparr>"]
  by (simp add: calculateTaxes_def aggregate_def result_of_def init_vars_def sale_defs
      parseFloat_field_def)

text \<open>
  C9. Aggregating the empty sequence returns, in both servers, the result with all five
  totals zero and both maps empty. The aggregation has no failing branch at all.
\<close>

theorem aggregate_empty:
  "calculateTaxes [] =
     \<lparr>totalSales = Fin 0, cgst = Fin 0, sgst = Fin 0, igst = Fin 0, totalTax = Fin 0,
      salesByState = [], salesByTaxSlab = []\<rparr>
   \<and> calculateGST [] =
     \<lparr>totalSales = Fin 0, cgst = Fin 0, sgst = Fin 0, igst = Fin 0, totalTax = Fin 0,
      salesByState = [], salesByTaxSlab = []\<rparr>"
  by (simp add: calculateTaxes_def calculateGST_def aggregate_def result_of_def init_vars_def)

section \<open>Record normalisation\<close>

text \<open>
  What \<open>||\<close> does to the parsed fields: the amount is the parsed number, and 0 when the
  parse fails; the rate is the parsed number unless the parse fails or gives 0, and the
  fallback in both of these cases.
\<close>

lemma sale_amount_cases:
  "sale_amount sale =
     (if parseFloat_field (amount sale) = NaN then Fin 0 else parseFloat_field (amount sale))"
  by (cases "parseFloat_field (amount sale)") (simp_all add: sale_amount_def js_or_def)

lemma sale_taxRate_cases:
  "sale_taxRate fallback sale =
     (if parseFloat_field (taxRate sale) = NaN \<or> parseFloat_field (taxRate sale) = Fin 0
      then fallback sale else parseFloat_field (taxRate sale))"
  by (cases "parseFloat_field (taxRate sale)") (simp_all add: sale_taxRate_def js_or_def)

text \<open>
  C2. A row that gives the rate \<open>0\<close> explicitly and whose product matches no rule is taxed
  at the inferred default \<open>18\<close>: the parsed rate \<open>0\<close> is falsy, so \<open>||\<close> discards it.
\<close>

theorem explicit_zero_rate_replaced:
  "parseFloat_field (taxRate \<lparr>amount = Some ''100'', taxRate = Some ''0'',
      state = Some ''Home State'', product = Some ''widget''\<rparr>) = Fin 0
   \<and> sale_taxRate determineTaxRate \<lparr>amount = Some ''100'', taxRate = Some ''0'',
      state = Some ''Home State'', product = Some ''widget''\<rparr> = Fin 18
   \<and> calculateTaxes [\<lparr>amount = Some ''100'', taxRate = Some ''0'',
      state = Some ''Home State'', product = Some ''widget''\<rparr>] =
     \<lparr>totalSales = Fin 100, cgst = Fin 9, sgst = Fin 9, igst = Fin 0, totalTax = Fin 18,
      salesByState = [(''Home State'', Fin 100)], salesByTaxSlab = [(Fin 18, Fin 100)]\<rparr>"
  by (simp add: calculateTaxes_def aggregate_defs sale_defs parseFloat_field_def)


section \<open>Order on numbers\<close>

lemma js_gt_imp_le: "js_gt a b \<Longrightarrow> js_le b a"
  by (cases a; cases b) (auto simp: js_le_def)

lemma js_le_trans: "js_le a b \<Longrightarrow> js_le b c \<Longrightarrow> js_le a c"
  by (cases a; cases b; cases c) (auto simp: js_le_def)

lemma js_le_refl: "a \<noteq> NaN \<Longrightarrow> js_le a a"
  by (cases a) (auto simp: js_le_def)

lemma js_gt_not_NaN: "js_gt a b \<Longrightarrow> a \<noteq> NaN \<and> b \<noteq> NaN"
  by (cases a; cases b) auto

lemma js_sub_gt_0: "a \<noteq> NaN \<Longrightarrow> b \<noteq> NaN \<Longrightarrow> js_gt (js_sub a b) (Fin 0) = js_gt a b"
  by (cases a; cases b) (auto simp: js_sub_def)

section \<open>Keys of an object\<close>

lemma set_Object_keys: "set (Object_keys ix m) = fst ` set m"
  by (auto simp: Object_keys_def)

lemma length_Object_keys: "length (Object_keys ix m) = length m"
proof -
  have "length [k \<leftarrow> map fst m. ix k \<noteq> None] + length [k \<leftarrow> map fst m. \<not> ix k \<noteq> None]
      = length (map fst m)"
    by (rule sum_length_filter_compl)
  then show ?thesis
    by (simp add: Object_keys_def)
qed

lemma Object_keys_Nil_iff: "Object_keys ix m = [] \<longleftrightarrow> m = []"
  using length_Object_keys [of ix m] by (metis length_0_conv)

lemma obj_num_in_values: "k \<in> fst ` set m \<Longrightarrow> obj_num m k \<in> snd ` set m"
proof -
  assume "k \<in> fst ` set m"
  then obtain v where "map_of m k = Some v"
    by (metis map_of_eq_None_iff not_Some_eq)
  then show ?thesis
    by (auto simp: obj_num_def dest: map_of_SomeD intro: rev_image_eqI)
qed

section \<open>The key that \<open>reduce\<close> selects\<close>

lemma reduce_last_maximum:
  assumes "\<forall>k \<in> set (x # xs). v k \<noteq> NaN"
  shows "last_maximum v (x # xs)
           (foldl (\<lambda>a b. if js_gt (v a) (v b) then a else b) x xs)"
  using assms
proof (induction xs rule: rev_induct)
  case Nil
  have "x # [] = [] @ x # []"
    by simp
  then show ?case
    unfolding last_maximum_def foldl_Nil by (metis empty_iff empty_set)
next
  case (snoc y ys)
  let ?f = "\<lambda>a b. if js_gt (v a) (v b) then a else b"
  let ?p = "foldl ?f x ys"
  from snoc have "last_maximum v (x # ys) ?p"
    by simp
  then obtain pre post where dec: "x # ys = pre @ ?p # post"
    and pre: "\<forall>k \<in> set pre. js_le (v k) (v ?p)"
    and post: "\<forall>k \<in> set post. js_gt (v ?p) (v k)"
    unfolding last_maximum_def by blast
  have p_in: "?p \<in> set (x # ys)"
    by (subst dec) simp
  have nn_p: "v ?p \<noteq> NaN"
    using snoc.prems p_in by auto
  have nn_y: "v y \<noteq> NaN"
    using snoc.prems by simp
  show ?case
  proof (cases "js_gt (v ?p) (v y)")
    case True
    then have res: "foldl ?f x (ys @ [y]) = ?p"
      by simp
    have "last_maximum v (x # (ys @ [y])) ?p"
      unfolding last_maximum_def
    proof (intro exI conjI)
      show "x # (ys @ [y]) = pre @ ?p # (post @ [y])"
        using dec by simp
      show "\<forall>k \<in> set pre. js_le (v k) (v ?p)"
        by (rule pre)
      show "\<forall>k \<in> set (post @ [y]). js_gt (v ?p) (v k)"
        using post True by simp
    qed
    then show ?thesis
      unfolding res .
  next
    case False
    then have res: "foldl ?f x (ys @ [y]) = y"
      by simp
    from False have py: "js_le (v ?p) (v y)"
      using nn_p nn_y by (simp add: js_le_def)
    have below: "\<forall>k \<in> set (x # ys). js_le (v k) (v y)"
    proof
      fix k assume "k \<in> set (x # ys)"
      then have "k \<in> set pre \<or> k = ?p \<or> k \<in> set post"
        by (subst (asm) dec) auto
      then have "js_le (v k) (v ?p)"
        using pre post nn_p by (auto intro: js_gt_imp_le js_le_refl)
      then show "js_le (v k) (v y)"
        using py by (rule js_le_trans)
    qed
    have "last_maximum v (x # (ys @ [y])) y"
      unfolding last_maximum_def
    proof (intro exI conjI)
      show "x # (ys @ [y]) = (x # ys) @ y # []"
        by simp
      show "\<forall>k \<in> set (x # ys). js_le (v k) (v y)"
        by (rule below)
      show "\<forall>k \<in> set []. js_gt (v y) (v k)"
        by simp
    qed
    then show ?thesis
      unfolding res .
  qed
qed

lemma primary_key_last_maximum:
  assumes "m \<noteq> []" and "\<forall>x \<in> snd ` set m. x \<noteq> NaN"
  shows "\<exists>p. primary_key ix m = Inr p \<and> last_maximum (obj_num m) (Object_keys ix m) p"
proof -
  obtain x xs where ks: "Object_keys ix m = x # xs"
    using assms(1) Object_keys_Nil_iff [of ix m] by (cases "Object_keys ix m") auto
  have "\<forall>k \<in> set (x # xs). obj_num m k \<noteq> NaN"
    using assms(2) obj_num_in_values [of _ m] set_Object_keys [of ix m] ks by metis
  then have "last_maximum (obj_num m) (x # xs)
      (foldl (\<lambda>a b. if js_gt (obj_num m a) (obj_num m b) then a else b) x xs)"
    by (rule reduce_last_maximum)
  then show ?thesis
    by (simp add: primary_key_def ks)
qed

lemma primary_key_empty: "primary_key ix [] = Inl TypeError"
  by (simp add: primary_key_def Object_keys_def)

lemma primary_key_nonempty: "m \<noteq> [] \<Longrightarrow> \<exists>p. primary_key ix m = Inr p"
  using Object_keys_Nil_iff [of ix m]
  by (cases "Object_keys ix m") (auto simp: primary_key_def)

section \<open>Business pattern analysis\<close>

lemmas analysis_defs = analyzeBusinessPatterns_def primary_key_def Object_keys_def
  string_index_def obj_num_def classifyBusinessSize_def js_lt_def assessComplianceRisk_def
  riskScore_def

lemma obj_set_not_Nil: "obj_set m k v \<noteq> []"
  by (cases m) (auto split: if_splits)

lemma add_to_not_Nil: "add_to m k a \<noteq> []"
  by (simp add: add_to_def Let_def obj_set_not_Nil)

lemma add_to_state_Nil_iff: "add_to_state m st a = [] \<longleftrightarrow> m = [] \<and> st = ''__proto__''"
  by (simp add: add_to_state_def obj_set_not_Nil add_to_not_Nil)

lemma sale_step_state_map:
  "v_salesByState (sale_step fb v sale) =
     add_to_state (v_salesByState v) (sale_state sale) (sale_amount sale)"
  by (simp add: sale_step_def Let_def)

lemma fold_state_map_Nil_iff:
  "v_salesByState (foldl (sale_step fb) v rows) = [] \<longleftrightarrow>
     v_salesByState v = [] \<and> (\<forall>sale \<in> set rows. sale_state sale = ''__proto__'')"
  by (induction rows arbitrary: v) (auto simp: sale_step_state_map add_to_state_Nil_iff)

lemma aggregate_state_map_Nil_iff:
  "salesByState (aggregate fb salesData) = [] \<longleftrightarrow>
     (\<forall>sale \<in> set salesData. sale_state sale = ''__proto__'')"
  by (simp add: aggregate_def result_of_def fold_state_map_Nil_iff init_vars_def)

lemma aggregate_slab_map_not_Nil:
  assumes "salesData \<noteq> []"
  shows "salesByTaxSlab (aggregate fb salesData) \<noteq> []"
proof -
  obtain rows sale where "salesData = rows @ [sale]"
    using assms by (cases salesData rule: rev_cases) auto
  then show ?thesis
    by (simp add: aggregate_def result_of_def sale_step_def Let_def add_to_not_Nil)
qed

lemma analysis_empty_map:
  "salesByTaxSlab c = [] \<or> salesByState c = [] \<Longrightarrow> analyzeBusinessPatterns rows c = Inl TypeError"
  by (auto simp: analyzeBusinessPatterns_def primary_key_empty split: sum.splits)
    (metis (full_types) js_error.exhaust)

lemma analysis_returns:
  assumes "salesByTaxSlab c \<noteq> []" and "salesByState c \<noteq> []"
  shows "\<exists>slab st. primary_key number_index (salesByTaxSlab c) = Inr slab
      \<and> primary_key string_index (salesByState c) = Inr st
      \<and> analyzeBusinessPatterns rows c =
          Inr \<lparr>primaryTaxSlab = slab, primaryState = st,
               averageTransaction = js_div (totalSales c) (Fin (real (length rows))),
               businessSize = classifyBusinessSize (totalSales c),
               complianceRisk = assessComplianceRisk rows c\<rparr>"
proof -
  obtain slab where 1: "primary_key number_index (salesByTaxSlab c) = Inr slab"
    using primary_key_nonempty [OF assms(1)] by blast
  obtain st where 2: "primary_key string_index (salesByState c) = Inr st"
    using primary_key_nonempty [OF assms(2)] by blast
  show ?thesis
    by (simp add: analyzeBusinessPatterns_def 1 2)
qed

text \<open>
  In the pipeline the calculation is the aggregate of the same records. There the
  analysis fails exactly when no record leaves an entry in \<open>salesByState\<close>: when there is
  no record, and also when every record has the state label \<open>__proto__\<close>.
\<close>

lemma pipeline_analysis_fails_iff:
  "analyzeBusinessPatterns salesData (calculateTaxes salesData) = Inl TypeError \<longleftrightarrow>
     (\<forall>sale \<in> set salesData. sale_state sale = ''__proto__'')"
proof (cases "\<forall>sale \<in> set salesData. sale_state sale = ''__proto__''")
  case True
  then have "salesByState (calculateTaxes salesData) = []"
    by (simp add: calculateTaxes_def aggregate_state_map_Nil_iff)
  then have "analyzeBusinessPatterns salesData (calculateTaxes salesData) = Inl TypeError"
    by (intro analysis_empty_map) simp
  with True show ?thesis
    by simp
next
  case False
  then have "salesData \<noteq> []"
    by auto
  then have "salesByTaxSlab (calculateTaxes salesData) \<noteq> []"
    by (simp add: calculateTaxes_def aggregate_slab_map_not_Nil)
  moreover from False have "salesByState (calculateTaxes salesData) \<noteq> []"
    by (simp add: calculateTaxes_def aggregate_state_map_Nil_iff)
  ultimately obtain ba
    where "analyzeBusinessPatterns salesData (calculateTaxes salesData) = Inr ba"
    using analysis_returns [of "calculateTaxes salesData" salesData] by blast
  with False show ?thesis
    by simp
qed

lemma proto_label_example:
  "calculateTaxes [\<lparr>amount = Some ''100'', taxRate = Some ''18'', state = Some ''__proto__'',
      product = None\<rparr>] =
     \<lparr>totalSales = Fin 100, cgst = Fin 0, sgst = Fin 0, igst = Fin 18, totalTax = Fin 18,
      salesByState = [], salesByTaxSlab = [(Fin 18, Fin 100)]\<rparr>
   \<and> analyzeBusinessPatterns
       [\<lparr>amount = Some ''100'', taxRate = Some ''18'', state = Some ''__proto__'',
         product = None\<rparr>]
       (calculateTaxes [\<lparr>amount = Some ''100'', taxRate = Some ''18'',
         state = Some ''__proto__'', product = None\<rparr>]) = Inl TypeError"
  by (simp add: calculateTaxes_def aggregate_defs sale_defs parseFloat_field_def
      analysis_defs)

text \<open>
  C3, as the code has it. For the empty record sequence the pipeline passes the empty
  aggregate, and the analysis fails on it with the plain \<open>TypeError\<close> that \<open>reduce\<close> raises
  on an empty key list, before \<open>averageTransaction\<close> is computed; the code has no class
  \<open>EmptyDatasetError\<close>. The same \<open>TypeError\<close> is raised for every calculation in which one
  of the two maps is empty, whatever the records; when both maps have entries the
  analysis returns, with \<open>averageTransaction\<close> the quotient
  \<open>totalSales / salesData.length\<close>.
\<close>

theorem analysis_fails_on_empty_maps:
  "analyzeBusinessPatterns [] (calculateTaxes []) = Inl TypeError
   \<and> error_name TypeError = ''TypeError''
   \<and> (salesByTaxSlab taxCalculation = [] \<or> salesByState taxCalculation = [] \<longrightarrow>
        analyzeBusinessPatterns rows taxCalculation = Inl TypeError)
   \<and> (salesByTaxSlab taxCalculation \<noteq> [] \<and> salesByState taxCalculation \<noteq> [] \<longrightarrow>
        (\<exists>ba. analyzeBusinessPatterns rows taxCalculation = Inr ba
           \<and> averageTransaction ba =
               js_div (totalSales taxCalculation) (Fin (real (length rows)))))"
proof -
  have 1: "analyzeBusinessPatterns [] (calculateTaxes []) = Inl TypeError"
    by (rule analysis_empty_map)
      (simp add: calculateTaxes_def aggregate_def result_of_def init_vars_def)
  have 2: "error_name TypeError = ''TypeError''"
    by (simp add: error_name_def)
  have 3: "salesByTaxSlab taxCalculation = [] \<or> salesByState taxCalculation = [] \<longrightarrow>
        analyzeBusinessPatterns rows taxCalculation = Inl TypeError"
    using analysis_empty_map [of taxCalculation rows] by blast
  have 4: "salesByTaxSlab taxCalculation \<noteq> [] \<and> salesByState taxCalculation \<noteq> [] \<longrightarrow>
        (\<exists>ba. analyzeBusinessPatterns rows taxCalculation = Inr ba
           \<and> averageTransaction ba =
               js_div (totalSales taxCalculation) (Fin (real (length rows))))"
    using analysis_returns [of taxCalculation rows] by force
  show ?thesis
    using 1 2 3 4 by blast
qed

theorem analysis_fails_on_empty_maps_witness:
  "salesByTaxSlab (calculateTaxes []) = []
   \<and> analyzeBusinessPatterns [] (calculateTaxes []) = Inl TypeError
   \<and> salesByTaxSlab \<lparr>totalSales = Fin 1000, cgst = Fin 90, sgst = Fin 90, igst = Fin 0,
        totalTax = Fin 180, salesByState = [(''Home State'', Fin 1000)],
        salesByTaxSlab = [(Fin 18, Fin 1000)]\<rparr> \<noteq> []
   \<and> salesByState \<lparr>totalSales = Fin 1000, cgst = Fin 90, sgst = Fin 90, igst = Fin 0,
        totalTax = Fin 180, salesByState = [(''Home State'', Fin 1000)],
        salesByTaxSlab = [(Fin 18, Fin 1000)]\<rparr> \<noteq> []
   \<and> (\<exists>ba. analyzeBusinessPatterns
          [\<lparr>amount = Some ''1000'', taxRate = Some ''18'', state = Some ''Home State'',
            product = None\<rparr>]
          \<lparr>totalSales = Fin 1000, cgst = Fin 90, sgst = Fin 90, igst = Fin 0,
           totalTax = Fin 180, salesByState = [(''Home State'', Fin 1000)],
           salesByTaxSlab = [(Fin 18, Fin 1000)]\<rparr> = Inr ba
        \<and> averageTransaction ba = Fin 1000)"
  using analysis_fails_on_empty_maps [of "calculateTaxes []" "[]"]
    analysis_fails_on_empty_maps
      [of "\<lparr>totalSales = Fin 1000, cgst = Fin 90, sgst = Fin 90, igst = Fin 0,
           totalTax = Fin 180, salesByState = [(''Home State'', Fin 1000)],
           salesByTaxSlab = [(Fin 18, Fin 1000)]\<rparr>"
        "[\<lparr>amount = Some ''1000'', taxRate = Some ''18'', state = Some ''Home State'',
            product = None\<rparr>]"]
  by (simp add: calculateTaxes_def aggregate_def result_of_def init_vars_def)

text \<open>
  C3 as stated fails on the empty record sequence itself: the error that the pipeline
  raises there is a \<open>TypeError\<close>, not an \<open>EmptyDatasetError\<close>.
\<close>

theorem analysis_empty_records_counterexample:
  "analyzeBusinessPatterns [] (calculateTaxes []) = Inl TypeError
   \<and> error_name TypeError \<noteq> ''EmptyDatasetError''"
  by (simp add: calculateTaxes_def aggregate_defs analysis_defs error_name_def)

text \<open>
  C5, as the code has it. When both maps are non-empty and no summed amount is \<open>NaN\<close>, the
  analysis returns, and \<open>primaryTaxSlab\<close> and \<open>primaryState\<close> are keys of their maps with a
  maximal summed amount; the scan runs left to right over \<open>Object.keys\<close>, and among keys
  with the maximal amount the last one wins: every key behind the selected one has a
  strictly smaller amount.
\<close>

theorem primary_keys_are_last_maxima:
  assumes "salesByTaxSlab taxCalculation \<noteq> []"
    and "salesByState taxCalculation \<noteq> []"
    and "\<forall>x \<in> snd ` set (salesByTaxSlab taxCalculation). x \<noteq> NaN"
    and "\<forall>x \<in> snd ` set (salesByState taxCalculation). x \<noteq> NaN"
  shows "\<exists>ba. analyzeBusinessPatterns salesData taxCalculation = Inr ba
      \<and> last_maximum (obj_num (salesByTaxSlab taxCalculation))
          (Object_keys number_index (salesByTaxSlab taxCalculation)) (primaryTaxSlab ba)
      \<and> last_maximum (obj_num (salesByState taxCalculation))
          (Object_keys string_index (salesByState taxCalculation)) (primaryState ba)"
proof -
  obtain slab where 1: "primary_key number_index (salesByTaxSlab taxCalculation) = Inr slab"
    and s1: "last_maximum (obj_num (salesByTaxSlab taxCalculation))
          (Object_keys number_index (salesByTaxSlab taxCalculation)) slab"
    using primary_key_last_maximum [OF assms(1) assms(3)] by blast
  obtain st where 2: "primary_key string_index (salesByState taxCalculation) = Inr st"
    and s2: "last_maximum (obj_num (salesByState taxCalculation))
          (Object_keys string_index (salesByState taxCalculation)) st"
    using primary_key_last_maximum [OF assms(2) assms(4)] by blast
  show ?thesis
    using s1 s2 by (simp add: analyzeBusinessPatterns_def 1 2)
qed

theorem primary_keys_are_last_maxima_witness:
  "(\<exists>ba. analyzeBusinessPatterns []
       \<lparr>totalSales = Fin 3000, cgst = Fin 90, sgst = Fin 90, igst = Fin 360,
        totalTax = Fin 540,
        salesByState = [(''Home State'', Fin 1000), (''Other'', Fin 2000)],
        salesByTaxSlab = [(Fin 18, Fin 3000)]\<rparr> = Inr ba
     \<and> last_maximum (obj_num [(Fin 18, Fin 3000)]) [Fin 18] (primaryTaxSlab ba)
     \<and> last_maximum (obj_num [(''Home State'', Fin 1000), (''Other'', Fin 2000)])
          [''Home State'', ''Other''] (primaryState ba))"
  using primary_keys_are_last_maxima
    [of "\<lparr>totalSales = Fin 3000, cgst = Fin 90, sgst = Fin 90, igst = Fin 360,
        totalTax = Fin 540,
        salesByState = [(''Home State'', Fin 1000), (''Other'', Fin 2000)],
        salesByTaxSlab = [(Fin 18, Fin 3000)]\<rparr>" "[]"]
  by (simp add: Object_keys_def string_index_def is_digit_def)

text \<open>
  C5 as stated fails on two states with equal amounts: \<open>A\<close> is met first, \<open>B\<close> is selected.
\<close>

theorem primary_state_tie_counterexample:
  "salesByState (calculateTaxes
      [\<lparr>amount = Some ''100'', taxRate = Some ''18'', state = Some ''A'', product = None\<rparr>,
       \<lparr>amount = Some ''100'', taxRate = Some ''18'', state = Some ''B'', product = None\<rparr>])
     = [(''A'', Fin 100), (''B'', Fin 100)]
   \<and> analyzeBusinessPatterns
      [\<lparr>amount = Some ''100'', taxRate = Some ''18'', state = Some ''A'', product = None\<rparr>,
       \<lparr>amount = Some ''100'', taxRate = Some ''18'', state = Some ''B'', product = None\<rparr>]
      (calculateTaxes
      [\<lparr>amount = Some ''100'', taxRate = Some ''18'', state = Some ''A'', product = None\<rparr>,
       \<lparr>amount = Some ''100'', taxRate = Some ''18'', state = Some ''B'', product = None\<rparr>])
     = Inr \<lparr>primaryTaxSlab = Fin 18, primaryState = ''B'', averageTransaction = Fin 100,
            businessSize = ''Micro'', complianceRisk = ''Medium''\<rparr>"
  by (simp add: calculateTaxes_def aggregate_defs sale_defs parseFloat_field_def
      analysis_defs is_digit_def)

section \<open>Risk score\<close>

lemma zero_sales_ratio:
  "0 < q \<Longrightarrow> js_gt (js_div t (Fin 0)) (Fin q) = js_gt t (Fin 0)"
  by (cases t) simp_all

lemma riskScore_sum:
  "riskScore c =
     (if js_gt (igst c) (Fin 0) then 1 else 0)
     + (if 3 < length (Object_keys number_index (salesByTaxSlab c)) then 1 else 0)
     + (if js_gt (js_div (totalTax c) (totalSales c)) (Fin (15 / 100)) then 1 else 0)"
  by (simp add: riskScore_def)

lemma riskScore_le_3: "riskScore c \<le> 3"
  by (simp add: riskScore_def)

text \<open>
  C4, as the code has it. The score is the number of the three conditions that hold, so it
  is at most 3; it maps to Low below 2 and to Medium from 2 to 3, and High, which needs a
  score of 4, is never the result. With \<open>totalSales = 0\<close> the third condition holds exactly
  when \<open>totalTax\<close> is positive (the quotient is then \<open>Infinity\<close>).
\<close>

theorem risk_score_ceiling:
  "riskScore taxCalculation =
     (if js_gt (igst taxCalculation) (Fin 0) then 1 else 0)
     + (if 3 < length (Object_keys number_index (salesByTaxSlab taxCalculation)) then 1 else 0)
     + (if js_gt (js_div (totalTax taxCalculation) (totalSales taxCalculation)) (Fin (15 / 100))
        then 1 else 0)
   \<and> riskScore taxCalculation \<le> 3
   \<and> assessComplianceRisk salesData taxCalculation =
       (if riskScore taxCalculation \<le> 1 then ''Low'' else ''Medium'')
   \<and> assessComplianceRisk salesData taxCalculation \<noteq> ''High''
   \<and> (totalSales taxCalculation = Fin 0 \<longrightarrow>
        js_gt (js_div (totalTax taxCalculation) (totalSales taxCalculation)) (Fin (15 / 100))
        = js_gt (totalTax taxCalculation) (Fin 0))"
proof -
  have le: "riskScore taxCalculation \<le> 3"
    by (rule riskScore_le_3)
  have risk: "assessComplianceRisk salesData taxCalculation =
       (if riskScore taxCalculation \<le> 1 then ''Low'' else ''Medium'')"
    using le by (simp add: assessComplianceRisk_def Let_def)
  have not_high: "assessComplianceRisk salesData taxCalculation \<noteq> ''High''"
    by (simp add: risk)
  have zero: "totalSales taxCalculation = Fin 0 \<longrightarrow>
        js_gt (js_div (totalTax taxCalculation) (totalSales taxCalculation)) (Fin (15 / 100))
        = js_gt (totalTax taxCalculation) (Fin 0)"
    by (simp add: zero_sales_ratio)
  show ?thesis
    using riskScore_sum [of taxCalculation] le risk not_high zero
    by blast
qed

theorem risk_score_ceiling_witness:
  "totalSales \<lparr>totalSales = Fin 0, cgst = Fin 0, sgst = Fin 0, igst = Fin 5, totalTax = Fin 5,
      salesByState = [], salesByTaxSlab = []\<rparr> = Fin 0
   \<and> js_gt (js_div (Fin 5) (Fin 0)) (Fin (15 / 100))
   \<and> riskScore \<lparr>totalSales = Fin 0, cgst = Fin 0, sgst = Fin 0, igst = Fin 5,
      totalTax = Fin 5, salesByState = [], salesByTaxSlab = []\<rparr> = 2
   \<and> assessComplianceRisk [] \<lparr>totalSales = Fin 0, cgst = Fin 0, sgst = Fin 0, igst = Fin 5,
      totalTax = Fin 5, salesByState = [], salesByTaxSlab = []\<rparr> = ''Medium''"
  using risk_score_ceiling [of "\<lparr>totalSales = Fin 0, cgst = Fin 0, sgst = Fin 0,
      igst = Fin 5, totalTax = Fin 5, salesByState = [], salesByTaxSlab = []\<rparr>" "[]"]
  by (simp add: Object_keys_def)

text \<open>
  C4 as stated fails on four rows whose amounts cancel: \<open>totalSales\<close> is 0 and \<open>totalTax\<close>
  is 23 (in binary64 \<open>23.000000000000004\<close>, positive all the same), all three conditions
  hold, and the score 3 gives Medium, not High.
\<close>

theorem risk_zero_sales_counterexample:
  "totalSales (calculateTaxes
      [\<lparr>amount = Some ''100'', taxRate = Some ''28'', state = Some ''Other'', product = None\<rparr>,
       \<lparr>amount = Some ''-100'', taxRate = Some ''5'', state = Some ''Home State'',
        product = None\<rparr>,
       \<lparr>amount = Some ''0'', taxRate = Some ''12'', state = Some ''Other'', product = None\<rparr>,
       \<lparr>amount = Some ''0'', taxRate = Some ''18'', state = Some ''Other'', product = None\<rparr>])
     = Fin 0
   \<and> riskScore (calculateTaxes
      [\<lparr>amount = Some ''100'', taxRate = Some ''28'', state = Some ''Other'', product = None\<rparr>,
       \<lparr>amount = Some ''-100'', taxRate = Some ''5'', state = Some ''Home State'',
        product = None\<rparr>,
       \<lparr>amount = Some ''0'', taxRate = Some ''12'', state = Some ''Other'', product = None\<rparr>,
       \<lparr>amount = Some ''0'', taxRate = Some ''18'', state = Some ''Other'', product = None\<rparr>])
     = 3
   \<and> assessComplianceRisk
      [\<lparr>amount = Some ''100'', taxRate = Some ''28'', state = Some ''Other'', product = None\<rparr>,
       \<lparr>amount = Some ''-100'', taxRate = Some ''5'', state = Some ''Home State'',
        product = None\<rparr>,
       \<lparr>amount = Some ''0'', taxRate = Some ''12'', state = Some ''Other'', product = None\<rparr>,
       \<lparr>amount = Some ''0'', taxRate = Some ''18'', state = Some ''Other'', product = None\<rparr>]
      (calculateTaxes
      [\<lparr>amount = Some ''100'', taxRate = Some ''28'', state = Some ''Other'', product = None\<rparr>,
       \<lparr>amount = Some ''-100'', taxRate = Some ''5'', state = Some ''Home State'',
        product = None\<rparr>,
       \<lparr>amount = Some ''0'', taxRate = Some ''12'', state = Some ''Other'', product = None\<rparr>,
       \<lparr>amount = Some ''0'', taxRate = Some ''18'', state = Some ''Other'', product = None\<rparr>])
     = ''Medium''"
  by (simp add: calculateTaxes_def aggregate_defs sale_defs parseFloat_field_def
      assessComplianceRisk_def riskScore_def Object_keys_def)


section \<open>Compliance check\<close>

lemma next_month:
  assumes "0 \<le> m" and "m \<le> 11" and "100 \<le> y"
  shows "newDate (getFullYear (newDate y (m + 1) 1)) (getMonth (newDate y (m + 1) 1)) d =
           \<lparr>getFullYear = (if m = 11 then y + 1 else y),
            getMonth = (if m = 11 then 0 else m + 1), getDate = d\<rparr>"
proof (cases "m = 11")
  case True
  with assms show ?thesis
    by (simp add: newDate_def)
next
  case False
  with assms have "(m + 1) div 12 = 0" and "(m + 1) mod 12 = m + 1"
    by simp_all
  with assms False show ?thesis
    by (simp add: newDate_def)
qed

text \<open>
  C6. For a clock reading in year 100 or later, with \<open>getMonth\<close> in its range 0 to 11:
  the returns are exactly GSTR-1 and GSTR-3B; GSTR-1 is due on the 10th and GSTR-3B and the
  payment on the 20th of the month after the current one (January of the next year after
  December); \<open>Composition Scheme\<close> is a special scheme exactly for a Micro business; and
  each of the two risk areas is listed exactly when the risk is not Low.
\<close>

theorem compliance_check_fields:
  assumes "0 \<le> getMonth now" and "getMonth now \<le> 11" and "100 \<le> getFullYear now"
  shows "applicableReturns (checkCompliance now businessAnalysis) = [''GSTR-1'', ''GSTR-3B'']
    \<and> gstr1 (deadlines (checkCompliance now businessAnalysis)) =
        \<lparr>getFullYear = (if getMonth now = 11 then getFullYear now + 1 else getFullYear now),
         getMonth = (if getMonth now = 11 then 0 else getMonth now + 1), getDate = 10\<rparr>
    \<and> gstr3b (deadlines (checkCompliance now businessAnalysis)) =
        \<lparr>getFullYear = (if getMonth now = 11 then getFullYear now + 1 else getFullYear now),
         getMonth = (if getMonth now = 11 then 0 else getMonth now + 1), getDate = 20\<rparr>
    \<and> payment (deadlines (checkCompliance now businessAnalysis)) =
        \<lparr>getFullYear = (if getMonth now = 11 then getFullYear now + 1 else getFullYear now),
         getMonth = (if getMonth now = 11 then 0 else getMonth now + 1), getDate = 20\<rparr>
    \<and> (''Composition Scheme'' \<in> set (specialSchemes (checkCompliance now businessAnalysis))
         \<longleftrightarrow> businessSize businessAnalysis = ''Micro'')
    \<and> (''Interstate Sales'' \<in> set (riskAreas (checkCompliance now businessAnalysis))
         \<longleftrightarrow> complianceRisk businessAnalysis \<noteq> ''Low'')
    \<and> (''Multiple Tax Rates'' \<in> set (riskAreas (checkCompliance now businessAnalysis))
         \<longleftrightarrow> complianceRisk businessAnalysis \<noteq> ''Low'')"
proof -
  have d: "\<And>d. newDate (getFullYear (newDate (getFullYear now) (getMonth now + 1) 1))
         (getMonth (newDate (getFullYear now) (getMonth now + 1) 1)) d =
        \<lparr>getFullYear = (if getMonth now = 11 then getFullYear now + 1 else getFullYear now),
         getMonth = (if getMonth now = 11 then 0 else getMonth now + 1), getDate = d\<rparr>"
    using assms by (rule next_month)
  show ?thesis
    by (simp add: checkCompliance_def calculateDeadlines_def Let_def d)
qed

theorem compliance_check_fields_witness:
  "0 \<le> getMonth \<lparr>getFullYear = 2026, getMonth = 11, getDate = 2\<rparr>
   \<and> getMonth \<lparr>getFullYear = 2026, getMonth = 11, getDate = 2\<rparr> \<le> 11
   \<and> 100 \<le> getFullYear \<lparr>getFullYear = 2026, getMonth = 11, getDate = 2\<rparr>
   \<and> gstr1 (deadlines (checkCompliance \<lparr>getFullYear = 2026, getMonth = 11, getDate = 2\<rparr>
        \<lparr>primaryTaxSlab = Fin 18, primaryState = ''Home State'',
         averageTransaction = Fin 1000, businessSize = ''Micro'', complianceRisk = ''Low''\<rparr>))
      = \<lparr>getFullYear = 2027, getMonth = 0, getDate = 10\<rparr>
   \<and> specialSchemes (checkCompliance \<lparr>getFullYear = 2026, getMonth = 11, getDate = 2\<rparr>
        \<lparr>primaryTaxSlab = Fin 18, primaryState = ''Home State'',
         averageTransaction = Fin 1000, businessSize = ''Micro'', complianceRisk = ''Low''\<rparr>)
      = [''Composition Scheme'']"
  using compliance_check_fields [of "\<lparr>getFullYear = 2026, getMonth = 11, getDate = 2\<rparr>"
      "\<lparr>primaryTaxSlab = Fin 18, primaryState = ''Home State'',
         averageTransaction = Fin 1000, businessSize = ''Micro'', complianceRisk = ''Low''\<rparr>"]
  by (simp add: checkCompliance_def)

text \<open>
  C10. The check's \<open>itcEligibility\<close> is true exactly when the analysis says the risk is Low;
  for an analysis that \<open>analyzeBusinessPatterns\<close> returned, that is when the risk score of
  the calculation is below 2.
\<close>

theorem itc_eligible_iff_low_risk:
  "(itcEligibility (checkCompliance now businessAnalysis)
      \<longleftrightarrow> complianceRisk businessAnalysis = ''Low'')
   \<and> (analyzeBusinessPatterns salesData taxCalculation = Inr businessAnalysis \<longrightarrow>
        (itcEligibility (checkCompliance now businessAnalysis)
           \<longleftrightarrow> riskScore taxCalculation < 2))"
proof -
  have "complianceRisk businessAnalysis = assessComplianceRisk salesData taxCalculation"
    if "analyzeBusinessPatterns salesData taxCalculation = Inr businessAnalysis"
    using that by (auto simp: analyzeBusinessPatterns_def split: sum.splits)
  then show ?thesis
    by (auto simp: checkCompliance_def assessComplianceRisk_def Let_def)
qed

theorem itc_eligible_iff_low_risk_witness:
  "analyzeBusinessPatterns []
     \<lparr>totalSales = Fin 1000, cgst = Fin 90, sgst = Fin 90, igst = Fin 0, totalTax = Fin 180,
      salesByState = [(''Home State'', Fin 1000)], salesByTaxSlab = [(Fin 18, Fin 1000)]\<rparr>
   = Inr \<lparr>primaryTaxSlab = Fin 18, primaryState = ''Home State'', averageTransaction = PInf,
          businessSize = ''Micro'', complianceRisk = ''Low''\<rparr>
   \<and> itcEligibility (checkCompliance \<lparr>getFullYear = 2026, getMonth = 10, getDate = 2\<rparr>
        \<lparr>primaryTaxSlab = Fin 18, primaryState = ''Home State'', averageTransaction = PInf,
          businessSize = ''Micro'', complianceRisk = ''Low''\<rparr>)
   \<and> riskScore \<lparr>totalSales = Fin 1000, cgst = Fin 90, sgst = Fin 90, igst = Fin 0,
        totalTax = Fin 180, salesByState = [(''Home State'', Fin 1000)],
        salesByTaxSlab = [(Fin 18, Fin 1000)]\<rparr> < 2"
  using itc_eligible_iff_low_risk [of "\<lparr>getFullYear = 2026, getMonth = 10, getDate = 2\<rparr>"
      "\<lparr>primaryTaxSlab = Fin 18, primaryState = ''Home State'', averageTransaction = PInf,
          businessSize = ''Micro'', complianceRisk = ''Low''\<rparr>" "[]"
      "\<lparr>totalSales = Fin 1000, cgst = Fin 90, sgst = Fin 90, igst = Fin 0,
        totalTax = Fin 180, salesByState = [(''Home State'', Fin 1000)],
        salesByTaxSlab = [(Fin 18, Fin 1000)]\<rparr>"]
  by (simp add: analysis_defs is_digit_def)

section \<open>Compliance plan\<close>

lemma is_prefix_append: "is_prefix n (n @ b)"
  by (induction n) simp_all

lemma str_includes_empty: "str_includes s []"
  by (cases s) simp_all

lemma str_includes_here: "str_includes (n @ b) n"
  by (cases "n @ b") (use is_prefix_append [of n b] in auto)

lemma str_includes_later: "str_includes s n \<Longrightarrow> str_includes (a @ s) n"
  by (induction a) simp_all

lemma str_includes_self: "str_includes n n"
  using str_includes_here [of n "[]"] by simp

lemma str_includes_line: "str_includes (l @ d @ b) (l @ d)"
  using str_includes_here [of "l @ d" b] by simp

lemma is_prefix_longer: "is_prefix n s \<Longrightarrow> is_prefix n (s @ b)"
  by (induction n arbitrary: s) (auto split: list.splits)

lemma str_includes_longer: "str_includes s n \<Longrightarrow> str_includes (s @ b) n"
proof (induction s)
  case Nil
  then show ?case
    by (simp add: str_includes_empty)
next
  case (Cons c cs)
  then show ?case
    using is_prefix_longer [of n "c # cs" b] by auto
qed

lemma str_includes_join: "s \<in> set xs \<Longrightarrow> str_includes (join sep xs) s"
proof (induction sep xs rule: join.induct)
  case (1 sep)
  then show ?case
    by simp
next
  case (2 sep x)
  then show ?case
    by (simp add: str_includes_self)
next
  case (3 sep x y ys)
  show ?case
  proof (cases "s = x")
    case True
    then show ?thesis
      using str_includes_here [of x "sep @ join sep (y # ys)"] by simp
  next
    case False
    with 3 have "str_includes (join sep (y # ys)) s"
      by simp
    then have "str_includes (x @ sep @ join sep (y # ys)) s"
      by (intro str_includes_later)
    then show ?thesis
      by simp
  qed
qed

lemma join_example: "join '', '' [''Interstate Sales'', ''Multiple Tax Rates'']
    = ''Interstate Sales, Multiple Tax Rates''"
  by simp

lemma fallback_plan_not_empty: "fallback_plan tds ba cc \<noteq> []"
  by (simp add: fallback_plan_def)

lemma fallback_plan_gstr1:
  "str_includes (fallback_plan tds ba cc)
     (''    - File GSTR-1 by '' @ tds (gstr1 (deadlines cc)))"
  by (simp only: fallback_plan_def str_includes_later str_includes_line)

lemma fallback_plan_gstr3b:
  "str_includes (fallback_plan tds ba cc)
     (''    - File GSTR-3B by '' @ tds (gstr3b (deadlines cc)))"
  by (simp only: fallback_plan_def str_includes_later str_includes_line)

lemma fallback_plan_payment:
  "str_includes (fallback_plan tds ba cc)
     (''    - Pay taxes by '' @ tds (payment (deadlines cc)))"
  by (simp only: fallback_plan_def str_includes_later str_includes_line)

lemma fallback_plan_schemes:
  "str_includes (fallback_plan tds ba cc)
     (''    - Consider '' @ join '', '' (specialSchemes cc) @ '' if applicable'')"
  by (simp only: fallback_plan_def str_includes_later str_includes_self)

lemma fallback_plan_names_scheme:
  assumes "s \<in> set (specialSchemes cc)"
  shows "str_includes (fallback_plan tds ba cc) s"
proof -
  have "str_includes (join '', '' (specialSchemes cc)) s"
    using assms by (rule str_includes_join)
  then have "str_includes (join '', '' (specialSchemes cc) @ '' if applicable'') s"
    by (rule str_includes_longer)
  then show ?thesis
    by (simp only: fallback_plan_def str_includes_later)
qed

lemma fallback_plan_size:
  "str_includes (fallback_plan tds ba cc)
     (''COMPLIANCE PLAN FOR '' @ businessSize ba @ '' BUSINESS:'')"
proof -
  have "str_includes ((''COMPLIANCE PLAN FOR '' @ businessSize ba @ '' BUSINESS:'') @ b)
      (''COMPLIANCE PLAN FOR '' @ businessSize ba @ '' BUSINESS:'')" for b
    by (rule str_includes_here)
  then show ?thesis
    by (simp add: fallback_plan_def)
qed

text \<open>
  C8. With no collaborator, and with a collaborator that raises on the prompt, the plan is
  the fallback template, a text determined by the analysis, the check and the date format
  alone. It is not empty, and it contains the lines with the GSTR-1, GSTR-3B and payment
  deadlines of the check, the line with its special schemes, in which every special scheme
  of the check is named, and the business size. The exception is not passed on: the result
  is the plan text.
\<close>

theorem plan_falls_back:
  "generateCompliancePlan toDateString (None :: (string \<Rightarrow> 'e + string) option)
       businessAnalysis complianceCheck
     = fallback_plan toDateString businessAnalysis complianceCheck
   \<and> ((generate :: string \<Rightarrow> 'e + string) (plan_prompt businessAnalysis complianceCheck)
         = Inl error \<longrightarrow>
       generateCompliancePlan toDateString (Some generate) businessAnalysis complianceCheck
         = fallback_plan toDateString businessAnalysis complianceCheck)
   \<and> fallback_plan toDateString businessAnalysis complianceCheck \<noteq> []
   \<and> str_includes (fallback_plan toDateString businessAnalysis complianceCheck)
        (''    - File GSTR-1 by '' @ toDateString (gstr1 (deadlines complianceCheck)))
   \<and> str_includes (fallback_plan toDateString businessAnalysis complianceCheck)
        (''    - File GSTR-3B by '' @ toDateString (gstr3b (deadlines complianceCheck)))
   \<and> str_includes (fallback_plan toDateString businessAnalysis complianceCheck)
        (''    - Pay taxes by '' @ toDateString (payment (deadlines complianceCheck)))
   \<and> str_includes (fallback_plan toDateString businessAnalysis complianceCheck)
        (''    - Consider '' @ join '', '' (specialSchemes complianceCheck)
           @ '' if applicable'')
   \<and> (\<forall>s \<in> set (specialSchemes complianceCheck).
        str_includes (fallback_plan toDateString businessAnalysis complianceCheck) s)
   \<and> str_includes (fallback_plan toDateString businessAnalysis complianceCheck)
        (''COMPLIANCE PLAN FOR '' @ businessSize businessAnalysis @ '' BUSINESS:'')"
proof -
  have 1: "generateCompliancePlan toDateString (None :: (string \<Rightarrow> 'e + string) option)
       businessAnalysis complianceCheck
     = fallback_plan toDateString businessAnalysis complianceCheck"
    by (simp add: generateCompliancePlan_def)
  have 2: "generate (plan_prompt businessAnalysis complianceCheck) = Inl error \<longrightarrow>
       generateCompliancePlan toDateString (Some generate) businessAnalysis complianceCheck
         = fallback_plan toDateString businessAnalysis complianceCheck"
    by (simp add: generateCompliancePlan_def)
  show ?thesis
    using 1 2 fallback_plan_not_empty [of toDateString businessAnalysis complianceCheck]
      fallback_plan_gstr1 [of toDateString businessAnalysis complianceCheck]
      fallback_plan_gstr3b [of toDateString businessAnalysis complianceCheck]
      fallback_plan_payment [of toDateString businessAnalysis complianceCheck]
      fallback_plan_schemes [of toDateString businessAnalysis complianceCheck]
      fallback_plan_names_scheme [of _ complianceCheck toDateString businessAnalysis]
      fallback_plan_size [of toDateString businessAnalysis complianceCheck]
    by blast
qed

theorem plan_falls_back_witness:
  "(\<lambda>p. Inl TypeError :: js_error + string)
     (plan_prompt
        \<lparr>primaryTaxSlab = Fin 18, primaryState = ''Home State'',
         averageTransaction = Fin 1000, businessSize = ''Micro'', complianceRisk = ''Low''\<rparr>
        (checkCompliance \<lparr>getFullYear = 2026, getMonth = 10, getDate = 2\<rparr>
           \<lparr>primaryTaxSlab = Fin 18, primaryState = ''Home State'',
            averageTransaction = Fin 1000, businessSize = ''Micro'',
            complianceRisk = ''Low''\<rparr>)) = Inl TypeError
   \<and> specialSchemes
        (checkCompliance \<lparr>getFullYear = 2026, getMonth = 10, getDate = 2\<rparr>
           \<lparr>primaryTaxSlab = Fin 18, primaryState = ''Home State'',
            averageTransaction = Fin 1000, businessSize = ''Micro'',
            complianceRisk = ''Low''\<rparr>) = [''Composition Scheme'']
   \<and> generateCompliancePlan (\<lambda>d. if getDate d = 10 then ''Thu Dec 10 2026'' else ''Sun Dec 20 2026'')
        (Some (\<lambda>p. Inl TypeError :: js_error + string))
        \<lparr>primaryTaxSlab = Fin 18, primaryState = ''Home State'',
         averageTransaction = Fin 1000, businessSize = ''Micro'', complianceRisk = ''Low''\<rparr>
        (checkCompliance \<lparr>getFullYear = 2026, getMonth = 10, getDate = 2\<rparr>
           \<lparr>primaryTaxSlab = Fin 18, primaryState = ''Home State'',
            averageTransaction = Fin 1000, businessSize = ''Micro'',
            complianceRisk = ''Low''\<rparr>)
     = ''COMPLIANCE PLAN FOR Micro BUSINESS:'' @ nl
       @ ''    '' @ nl
       @ ''    Month 1:'' @ nl
       @ ''    - File GSTR-1 by Thu Dec 10 2026'' @ nl
       @ ''    - File GSTR-3B by Sun Dec 20 2026'' @ nl
       @ ''    - Pay taxes by Sun Dec 20 2026'' @ nl
       @ ''    - Reconcile input tax credit claims'' @ nl
       @ ''    '' @ nl
       @ ''    Month 2:'' @ nl
       @ ''    - Review compliance with new 2024 regulations'' @ nl
       @ ''    - Optimize tax strategy based on sales patterns'' @ nl
       @ ''    - Prepare for upcoming deadlines'' @ nl
       @ ''    '' @ nl
       @ ''    Month 3:'' @ nl
       @ ''    - Conduct compliance health check'' @ nl
       @ ''    - Plan for next quarter based on business trends'' @ nl
       @ ''    - Consider Composition Scheme if applicable''
   \<and> str_includes
       (generateCompliancePlan (\<lambda>d. if getDate d = 10 then ''Thu Dec 10 2026'' else ''Sun Dec 20 2026'')
        (Some (\<lambda>p. Inl TypeError :: js_error + string))
        \<lparr>primaryTaxSlab = Fin 18, primaryState = ''Home State'',
         averageTransaction = Fin 1000, businessSize = ''Micro'', complianceRisk = ''Low''\<rparr>
        (checkCompliance \<lparr>getFullYear = 2026, getMonth = 10, getDate = 2\<rparr>
           \<lparr>primaryTaxSlab = Fin 18, primaryState = ''Home State'',
            averageTransaction = Fin 1000, businessSize = ''Micro'',
            complianceRisk = ''Low''\<rparr>))
       ''Composition Scheme''
   \<and> str_includes
       (generateCompliancePlan (\<lambda>d. if getDate d = 10 then ''Thu Dec 10 2026'' else ''Sun Dec 20 2026'')
        (Some (\<lambda>p. Inl TypeError :: js_error + string))
        \<lparr>primaryTaxSlab = Fin 18, primaryState = ''Home State'',
         averageTransaction = Fin 1000, businessSize = ''Micro'', complianceRisk = ''Low''\<rparr>
        (checkCompliance \<lparr>getFullYear = 2026, getMonth = 10, getDate = 2\<rparr>
           \<lparr>primaryTaxSlab = Fin 18, primaryState = ''Home State'',
            averageTransaction = Fin 1000, businessSize = ''Micro'',
            complianceRisk = ''Low''\<rparr>))
       ''    - File GSTR-1 by Thu Dec 10 2026''"
proof -
  note inst = plan_falls_back [of "\<lambda>d. if getDate d = 10 then ''Thu Dec 10 2026'' else ''Sun Dec 20 2026''"
      "\<lparr>primaryTaxSlab = Fin 18, primaryState = ''Home State'',
         averageTransaction = Fin 1000, businessSize = ''Micro'', complianceRisk = ''Low''\<rparr>"
      "checkCompliance \<lparr>getFullYear = 2026, getMonth = 10, getDate = 2\<rparr>
           \<lparr>primaryTaxSlab = Fin 18, primaryState = ''Home State'',
            averageTransaction = Fin 1000, businessSize = ''Micro'',
            complianceRisk = ''Low''\<rparr>"
      "\<lambda>p. Inl TypeError :: js_error + string" TypeError]
  have schemes: "specialSchemes
        (checkCompliance \<lparr>getFullYear = 2026, getMonth = 10, getDate = 2\<rparr>
           \<lparr>primaryTaxSlab = Fin 18, primaryState = ''Home State'',
            averageTransaction = Fin 1000, businessSize = ''Micro'',
            complianceRisk = ''Low''\<rparr>) = [''Composition Scheme'']"
    by (simp add: checkCompliance_def)
  have gstr1: "gstr1 (deadlines
        (checkCompliance \<lparr>getFullYear = 2026, getMonth = 10, getDate = 2\<rparr>
           \<lparr>primaryTaxSlab = Fin 18, primaryState = ''Home State'',
            averageTransaction = Fin 1000, businessSize = ''Micro'',
            complianceRisk = ''Low''\<rparr>)) = \<lparr>getFullYear = 2026, getMonth = 11, getDate = 10\<rparr>"
    by (simp add: checkCompliance_def calculateDeadlines_def newDate_def)
  have plan: "generateCompliancePlan (\<lambda>d. if getDate d = 10 then ''Thu Dec 10 2026'' else ''Sun Dec 20 2026'')
        (Some (\<lambda>p. Inl TypeError :: js_error + string))
        \<lparr>primaryTaxSlab = Fin 18, primaryState = ''Home State'',
         averageTransaction = Fin 1000, businessSize = ''Micro'', complianceRisk = ''Low''\<rparr>
        (checkCompliance \<lparr>getFullYear = 2026, getMonth = 10, getDate = 2\<rparr>
           \<lparr>primaryTaxSlab = Fin 18, primaryState = ''Home State'',
            averageTransaction = Fin 1000, businessSize = ''Micro'',
            complianceRisk = ''Low''\<rparr>)
     = fallback_plan (\<lambda>d. if getDate d = 10 then ''Thu Dec 10 2026'' else ''Sun Dec 20 2026'')
        \<lparr>primaryTaxSlab = Fin 18, primaryState = ''Home State'',
         averageTransaction = Fin 1000, businessSize = ''Micro'', complianceRisk = ''Low''\<rparr>
        (checkCompliance \<lparr>getFullYear = 2026, getMonth = 10, getDate = 2\<rparr>
           \<lparr>primaryTaxSlab = Fin 18, primaryState = ''Home State'',
            averageTransaction = Fin 1000, businessSize = ''Micro'',
            complianceRisk = ''Low''\<rparr>)"
    using inst by simp
  have body: "fallback_plan (\<lambda>d. if getDate d = 10 then ''Thu Dec 10 2026'' else ''Sun Dec 20 2026'')
        \<lparr>primaryTaxSlab = Fin 18, primaryState = ''Home State'',
         averageTransaction = Fin 1000, businessSize = ''Micro'', complianceRisk = ''Low''\<rparr>
        (checkCompliance \<lparr>getFullYear = 2026, getMonth = 10, getDate = 2\<rparr>
           \<lparr>primaryTaxSlab = Fin 18, primaryState = ''Home State'',
            averageTransaction = Fin 1000, businessSize = ''Micro'',
            complianceRisk = ''Low''\<rparr>)
     = ''COMPLIANCE PLAN FOR Micro BUSINESS:'' @ nl
       @ ''    '' @ nl
       @ ''    Month 1:'' @ nl
       @ ''    - File GSTR-1 by Thu Dec 10 2026'' @ nl
       @ ''    - File GSTR-3B by Sun Dec 20 2026'' @ nl
       @ ''    - Pay taxes by Sun Dec 20 2026'' @ nl
       @ ''    - Reconcile input tax credit claims'' @ nl
       @ ''    '' @ nl
       @ ''    Month 2:'' @ nl
       @ ''    - Review compliance with new 2024 regulations'' @ nl
       @ ''    - Optimize tax strategy based on sales patterns'' @ nl
       @ ''    - Prepare for upcoming deadlines'' @ nl
       @ ''    '' @ nl
       @ ''    Month 3:'' @ nl
       @ ''    - Conduct compliance health check'' @ nl
       @ ''    - Plan for next quarter based on business trends'' @ nl
       @ ''    - Consider Composition Scheme if applicable''"
    by (simp add: fallback_plan_def checkCompliance_def calculateDeadlines_def newDate_def)
  have scheme: "str_includes
       (fallback_plan (\<lambda>d. if getDate d = 10 then ''Thu Dec 10 2026'' else ''Sun Dec 20 2026'')
        \<lparr>primaryTaxSlab = Fin 18, primaryState = ''Home State'',
         averageTransaction = Fin 1000, businessSize = ''Micro'', complianceRisk = ''Low''\<rparr>
        (checkCompliance \<lparr>getFullYear = 2026, getMonth = 10, getDate = 2\<rparr>
           \<lparr>primaryTaxSlab = Fin 18, primaryState = ''Home State'',
            averageTransaction = Fin 1000, businessSize = ''Micro'',
            complianceRisk = ''Low''\<rparr>))
       ''Composition Scheme''"
    using inst schemes by simp
  have line: "str_includes
       (fallback_plan (\<lambda>d. if getDate d = 10 then ''Thu Dec 10 2026'' else ''Sun Dec 20 2026'')
        \<lparr>primaryTaxSlab = Fin 18, primaryState = ''Home State'',
         averageTransaction = Fin 1000, businessSize = ''Micro'', complianceRisk = ''Low''\<rparr>
        (checkCompliance \<lparr>getFullYear = 2026, getMonth = 10, getDate = 2\<rparr>
           \<lparr>primaryTaxSlab = Fin 18, primaryState = ''Home State'',
            averageTransaction = Fin 1000, businessSize = ''Micro'',
            complianceRisk = ''Low''\<rparr>))
       ''    - File GSTR-1 by Thu Dec 10 2026''"
    using inst gstr1 by simp
  show ?thesis
    using schemes plan body scheme line by simp
qed

section \<open>Knowledge retrieval\<close>

lemma collect_none:
  "\<forall>x \<in> set ms. \<not> js_gt x (Fin 0) \<Longrightarrow> collect docs i ms = Inr []"
  by (induction ms arbitrary: i) simp_all

lemma collect_skip:
  "\<forall>x \<in> set pre. \<not> js_gt x (Fin 0) \<Longrightarrow>
     collect docs i (pre @ ms) = collect docs (i + length pre) ms"
  by (induction pre arbitrary: i) simp_all

lemma collect_single:
  assumes "\<forall>x \<in> set pre. \<not> js_gt x (Fin 0)" and "js_gt m (Fin 0)"
    and "\<forall>x \<in> set post. \<not> js_gt x (Fin 0)" and "length pre < length docs"
  shows "collect docs 0 (pre @ m # post) =
           Inr [\<lparr>document = docs ! length pre, relevance = m,
                 r_id = kd_id (docs ! length pre)\<rparr>]"
  using assms by (simp add: collect_skip collect_none)

lemma collect_returns:
  "i + length ms \<le> length docs \<Longrightarrow> \<exists>rs. collect docs i ms = Inr rs"
proof (induction ms arbitrary: i)
  case Nil
  show ?case by simp
next
  case (Cons m ms)
  then obtain rs where "collect docs (Suc i) ms = Inr rs"
    by fastforce
  with Cons.prems show ?case
    by simp
qed

lemma collect_positive:
  "collect docs i ms = Inr rs \<Longrightarrow> \<forall>r \<in> set rs. js_gt (relevance r) (Fin 0)"
  by (induction ms arbitrary: i rs) (auto split: if_splits sum.splits)

lemma collect_from_corpus:
  "collect docs i ms = Inr rs \<Longrightarrow>
     \<forall>r \<in> set rs. \<exists>j < length ms. i + j < length docs \<and> relevance r = ms ! j
       \<and> document r = docs ! (i + j) \<and> r_id r = kd_id (docs ! (i + j))"
proof (induction ms arbitrary: i rs)
  case Nil
  then show ?case by simp
next
  case (Cons m ms)
  show ?case
  proof
    fix r assume r: "r \<in> set rs"
    show "\<exists>j < length (m # ms). i + j < length docs \<and> relevance r = (m # ms) ! j
       \<and> document r = docs ! (i + j) \<and> r_id r = kd_id (docs ! (i + j))"
    proof (cases "js_gt m (Fin 0)")
      case False
      with Cons.prems have "collect docs (Suc i) ms = Inr rs"
        by simp
      from Cons.IH [OF this] r obtain j where "j < length ms" "Suc i + j < length docs"
        "relevance r = ms ! j" "document r = docs ! (Suc i + j)"
        "r_id r = kd_id (docs ! (Suc i + j))"
        by blast
      then show ?thesis
        by (intro exI [of _ "Suc j"]) simp
    next
      case True
      with Cons.prems obtain rs' where i: "i < length docs"
        and rs': "collect docs (Suc i) ms = Inr rs'"
        and rs: "rs = \<lparr>document = docs ! i, relevance = m, r_id = kd_id (docs ! i)\<rparr> # rs'"
        by (auto split: if_splits sum.splits)
      show ?thesis
      proof (cases "r \<in> set rs'")
        case True
        from Cons.IH [OF rs'] True obtain j where "j < length ms" "Suc i + j < length docs"
          "relevance r = ms ! j" "document r = docs ! (Suc i + j)"
          "r_id r = kd_id (docs ! (Suc i + j))"
          by blast
        then show ?thesis
          by (intro exI [of _ "Suc j"]) simp
      next
        case False
        with r rs have "r = \<lparr>document = docs ! i, relevance = m, r_id = kd_id (docs ! i)\<rparr>"
          by simp
        with i show ?thesis
          by (intro exI [of _ 0]) simp
      qed
    qed
  qed
qed

lemma set_insort_rel: "set (insort_rel x xs) = insert x (set xs)"
  by (induction xs) auto

lemma set_sort_rel: "set (sort_rel xs) = set xs"
  by (induction xs) (simp_all add: sort_rel_def set_insort_rel)

lemma length_insort_rel: "length (insort_rel x xs) = Suc (length xs)"
  by (induction xs) auto

lemma length_sort_rel: "length (sort_rel xs) = length xs"
  by (induction xs) (simp_all add: sort_rel_def length_insort_rel)

lemma sorted_insort_rel:
  assumes "sorted_wrt (\<lambda>a b. js_le (relevance b) (relevance a)) xs"
    and "relevance x \<noteq> NaN" and "\<forall>y \<in> set xs. relevance y \<noteq> NaN"
  shows "sorted_wrt (\<lambda>a b. js_le (relevance b) (relevance a)) (insort_rel x xs)"
  using assms
proof (induction xs)
  case Nil
  then show ?case by simp
next
  case (Cons y ys)
  show ?case
  proof (cases "js_gt (relevance y) (relevance x)")
    case True
    then have "js_le (relevance x) (relevance y)"
      by (rule js_gt_imp_le)
    with Cons True show ?thesis
      by (simp add: js_sub_gt_0 set_insort_rel)
  next
    case False
    with Cons.prems have xy: "js_le (relevance y) (relevance x)"
      by (simp add: js_le_def)
    have "\<forall>z \<in> set ys. js_le (relevance z) (relevance x)"
      using Cons.prems(1) xy by (auto intro: js_le_trans)
    with Cons.prems False xy show ?thesis
      by (simp add: js_sub_gt_0)
  qed
qed

lemma sorted_sort_rel:
  "\<forall>y \<in> set xs. relevance y \<noteq> NaN \<Longrightarrow>
     sorted_wrt (\<lambda>a b. js_le (relevance b) (relevance a)) (sort_rel xs)"
proof (induction xs)
  case Nil
  show ?case by (simp add: sort_rel_def)
next
  case (Cons x xs)
  then have "sorted_wrt (\<lambda>a b. js_le (relevance b) (relevance a)) (insort_rel x (sort_rel xs))"
    by (intro sorted_insort_rel) (simp_all add: set_sort_rel)
  then show ?case
    by (simp add: sort_rel_def)
qed

lemma mset_insort_rel: "mset (insort_rel x xs) = add_mset x (mset xs)"
  by (induction xs) auto

lemma mset_sort_rel: "mset (sort_rel xs) = mset xs"
  by (induction xs) (simp_all add: sort_rel_def mset_insort_rel)

lemma collect_all_positive:
  "i + length ms \<le> length docs \<Longrightarrow>
     collect docs i ms =
       Inr (map (\<lambda>(d, m). \<lparr>document = d, relevance = m, r_id = kd_id d\<rparr>)
             (filter (\<lambda>(d, m). js_gt m (Fin 0)) (zip (drop i docs) ms)))"
proof (induction ms arbitrary: i)
  case Nil
  show ?case by simp
next
  case (Cons m ms)
  then have i: "i < length docs" and rest: "Suc i + length ms \<le> length docs"
    by simp_all
  from i have "drop i docs = docs ! i # drop (Suc i) docs"
    by (simp add: Cons_nth_drop_Suc)
  with Cons.IH [OF rest] i show ?case
    by simp
qed

text \<open>
  C7. When the index reports no more measures than there are documents and the bound is
  not negative, retrieval returns. The result has at most \<open>maxResults\<close> entries, is ordered
  by descending relevance, and every entry is a document of the corpus with the positive
  measure reported for it, so a document with measure zero is never returned. The entries
  are the top ones: the documents with a positive measure split into the returned ones and
  the rest, as many are returned as the bound allows, and none of the rest has a higher
  relevance than a returned one. If no measure is positive the result is empty; if exactly
  one is and the bound is at least 1, the result is that document alone.
\<close>

theorem retrieval_ranked_and_bounded:
  assumes "length (tfidfs query) \<le> length docs" and "0 \<le> maxResults"
  shows "\<exists>rs. retrieveRelevantKnowledge tfidfs docs query maxResults = Inr rs
      \<and> int (length rs) \<le> maxResults
      \<and> sorted_wrt (\<lambda>a b. js_le (relevance b) (relevance a)) rs
      \<and> (\<forall>r \<in> set rs. js_gt (relevance r) (Fin 0)
            \<and> (\<exists>j < length (tfidfs query). relevance r = tfidfs query ! j
                  \<and> document r = docs ! j \<and> r_id r = kd_id (docs ! j)))
      \<and> ((\<forall>x \<in> set (tfidfs query). \<not> js_gt x (Fin 0)) \<longrightarrow> rs = [])
      \<and> (\<forall>pre m post. tfidfs query = pre @ m # post
            \<and> (\<forall>x \<in> set pre. \<not> js_gt x (Fin 0)) \<and> js_gt m (Fin 0)
            \<and> (\<forall>x \<in> set post. \<not> js_gt x (Fin 0)) \<and> 1 \<le> maxResults \<longrightarrow>
            rs = [\<lparr>document = docs ! length pre, relevance = m,
                    r_id = kd_id (docs ! length pre)\<rparr>])
      \<and> (\<exists>rest.
            mset rs + mset rest =
              mset (map (\<lambda>(d, m). \<lparr>document = d, relevance = m, r_id = kd_id d\<rparr>)
                     (filter (\<lambda>(d, m). js_gt m (Fin 0)) (zip docs (tfidfs query))))
            \<and> length rs =
                min (nat maxResults)
                  (length (filter (\<lambda>(d, m). js_gt m (Fin 0)) (zip docs (tfidfs query))))
            \<and> (\<forall>r \<in> set rs. \<forall>r' \<in> set rest. js_le (relevance r') (relevance r)))"
proof -
  let ?le = "\<lambda>a b. js_le (relevance b) (relevance a)"
  define found where "found = map (\<lambda>(d, m). \<lparr>document = d, relevance = m, r_id = kd_id d\<rparr>)
                (filter (\<lambda>(d, m). js_gt m (Fin 0)) (zip docs (tfidfs query)))"
  have results: "collect docs 0 (tfidfs query) = Inr found"
    using collect_all_positive [of 0 "tfidfs query" docs] assms(1) by (simp add: found_def)
  define rs where "rs = take (nat maxResults) (sort_rel found)"
  define rest where "rest = drop (nat maxResults) (sort_rel found)"
  have ret: "retrieveRelevantKnowledge tfidfs docs query maxResults = Inr rs"
    using assms(2) by (simp add: retrieveRelevantKnowledge_def results slice0_def rs_def)
  have len: "int (length rs) \<le> maxResults"
    using assms(2) by (simp add: rs_def)
  have pos: "\<forall>r \<in> set found. js_gt (relevance r) (Fin 0)"
    using results by (rule collect_positive)
  then have "\<forall>r \<in> set found. relevance r \<noteq> NaN"
    using js_gt_not_NaN by blast
  then have sorted_all: "sorted_wrt ?le (sort_rel found)"
    by (rule sorted_sort_rel)
  then have sorted: "sorted_wrt ?le rs"
    unfolding rs_def by (rule sorted_wrt_take)
  have sub: "set rs \<subseteq> set found"
    unfolding rs_def using set_take_subset [of "nat maxResults" "sort_rel found"]
    by (simp add: set_sort_rel)
  have from_corpus: "\<forall>r \<in> set rs. js_gt (relevance r) (Fin 0)
            \<and> (\<exists>j < length (tfidfs query). relevance r = tfidfs query ! j
                  \<and> document r = docs ! j \<and> r_id r = kd_id (docs ! j))"
    using collect_from_corpus [OF results] pos sub by fastforce
  have none: "(\<forall>x \<in> set (tfidfs query). \<not> js_gt x (Fin 0)) \<longrightarrow> rs = []"
  proof
    assume "\<forall>x \<in> set (tfidfs query). \<not> js_gt x (Fin 0)"
    then have "collect docs 0 (tfidfs query) = Inr []"
      by (rule collect_none)
    with results have "found = []"
      by simp
    then show "rs = []"
      by (simp add: rs_def sort_rel_def)
  qed
  have one: "\<forall>pre m post. tfidfs query = pre @ m # post
            \<and> (\<forall>x \<in> set pre. \<not> js_gt x (Fin 0)) \<and> js_gt m (Fin 0)
            \<and> (\<forall>x \<in> set post. \<not> js_gt x (Fin 0)) \<and> 1 \<le> maxResults \<longrightarrow>
            rs = [\<lparr>document = docs ! length pre, relevance = m,
                    r_id = kd_id (docs ! length pre)\<rparr>]"
  proof (intro allI impI, elim conjE)
    fix pre m post
    assume q: "tfidfs query = pre @ m # post"
      and pre: "\<forall>x \<in> set pre. \<not> js_gt x (Fin 0)" and m: "js_gt m (Fin 0)"
      and post: "\<forall>x \<in> set post. \<not> js_gt x (Fin 0)" and n: "1 \<le> maxResults"
    have "length pre < length docs"
      using assms(1) q by simp
    with pre m post have "collect docs 0 (pre @ m # post) =
           Inr [\<lparr>document = docs ! length pre, relevance = m,
                 r_id = kd_id (docs ! length pre)\<rparr>]"
      by (intro collect_single)
    with results q have "found = [\<lparr>document = docs ! length pre, relevance = m,
                 r_id = kd_id (docs ! length pre)\<rparr>]"
      by simp
    moreover from n obtain k where "nat maxResults = Suc k"
      by (cases "nat maxResults") auto
    ultimately show "rs = [\<lparr>document = docs ! length pre, relevance = m,
                    r_id = kd_id (docs ! length pre)\<rparr>]"
      by (simp add: rs_def sort_rel_def)
  qed
  have split: "mset rs + mset rest = mset found"
  proof -
    have "mset rs + mset rest = mset (rs @ rest)"
      by simp
    also have "rs @ rest = sort_rel found"
      by (simp add: rs_def rest_def)
    finally show ?thesis
      by (simp add: mset_sort_rel)
  qed
  have count: "length rs = min (nat maxResults) (length found)"
    by (simp add: rs_def length_sort_rel min.commute)
  have "sorted_wrt ?le (rs @ rest)"
    using sorted_all by (simp add: rs_def rest_def)
  then have top: "\<forall>r \<in> set rs. \<forall>r' \<in> set rest. js_le (relevance r') (relevance r)"
    by (simp add: sorted_wrt_append)
  have size: "length found =
      length (filter (\<lambda>(d, m). js_gt m (Fin 0)) (zip docs (tfidfs query)))"
    by (simp add: found_def)
  have "\<exists>rest. mset rs + mset rest = mset found
      \<and> length rs = min (nat maxResults) (length found)
      \<and> (\<forall>r \<in> set rs. \<forall>r' \<in> set rest. js_le (relevance r') (relevance r))"
    using split count top by blast
  then have topn: "\<exists>rest.
       mset rs + mset rest =
         mset (map (\<lambda>(d, m). \<lparr>document = d, relevance = m, r_id = kd_id d\<rparr>)
                (filter (\<lambda>(d, m). js_gt m (Fin 0)) (zip docs (tfidfs query))))
       \<and> length rs =
           min (nat maxResults)
             (length (filter (\<lambda>(d, m). js_gt m (Fin 0)) (zip docs (tfidfs query))))
       \<and> (\<forall>r \<in> set rs. \<forall>r' \<in> set rest. js_le (relevance r') (relevance r))"
    unfolding size unfolding found_def .
  show ?thesis
    using ret len sorted from_corpus none one topn by blast
qed

theorem retrieval_ranked_and_bounded_witness:
  "length ((\<lambda>q. [Fin 0, Fin 2, Fin 5, Fin 1, Fin 3]) ''gstr1 deadline'')
     \<le> length [\<lparr>kd_id = ''a'', content = ''A'', tags = []\<rparr>,
      \<lparr>kd_id = ''b'', content = ''B'', tags = []\<rparr>,
      \<lparr>kd_id = ''c'', content = ''C'', tags = []\<rparr>,
      \<lparr>kd_id = ''d'', content = ''D'', tags = []\<rparr>,
      \<lparr>kd_id = ''e'', content = ''E'', tags = []\<rparr>]
   \<and> (0 :: int) \<le> 3
   \<and> (\<exists>rs. retrieveRelevantKnowledge (\<lambda>q. [Fin 0, Fin 2, Fin 5, Fin 1, Fin 3])
          [\<lparr>kd_id = ''a'', content = ''A'', tags = []\<rparr>,
      \<lparr>kd_id = ''b'', content = ''B'', tags = []\<rparr>,
      \<lparr>kd_id = ''c'', content = ''C'', tags = []\<rparr>,
      \<lparr>kd_id = ''d'', content = ''D'', tags = []\<rparr>,
      \<lparr>kd_id = ''e'', content = ''E'', tags = []\<rparr>] ''gstr1 deadline'' 3 = Inr rs
          \<and> int (length rs) \<le> 3
          \<and> sorted_wrt (\<lambda>a b. js_le (relevance b) (relevance a)) rs)
   \<and> retrieveRelevantKnowledge (\<lambda>q. [Fin 0, Fin 2, Fin 5, Fin 1, Fin 3])
        [\<lparr>kd_id = ''a'', content = ''A'', tags = []\<rparr>,
      \<lparr>kd_id = ''b'', content = ''B'', tags = []\<rparr>,
      \<lparr>kd_id = ''c'', content = ''C'', tags = []\<rparr>,
      \<lparr>kd_id = ''d'', content = ''D'', tags = []\<rparr>,
      \<lparr>kd_id = ''e'', content = ''E'', tags = []\<rparr>] ''gstr1 deadline'' 3
      = Inr [\<lparr>document = \<lparr>kd_id = ''c'', content = ''C'', tags = []\<rparr>,
              relevance = Fin 5, r_id = ''c''\<rparr>,
             \<lparr>document = \<lparr>kd_id = ''e'', content = ''E'', tags = []\<rparr>,
              relevance = Fin 3, r_id = ''e''\<rparr>,
             \<lparr>document = \<lparr>kd_id = ''b'', content = ''B'', tags = []\<rparr>,
              relevance = Fin 2, r_id = ''b''\<rparr>]"
proof -
  have ex: "\<exists>rs. retrieveRelevantKnowledge (\<lambda>q. [Fin 0, Fin 2, Fin 5, Fin 1, Fin 3])
          [\<lparr>kd_id = ''a'', content = ''A'', tags = []\<rparr>,
      \<lparr>kd_id = ''b'', content = ''B'', tags = []\<rparr>,
      \<lparr>kd_id = ''c'', content = ''C'', tags = []\<rparr>,
      \<lparr>kd_id = ''d'', content = ''D'', tags = []\<rparr>,
      \<lparr>kd_id = ''e'', content = ''E'', tags = []\<rparr>] ''gstr1 deadline'' 3 = Inr rs
          \<and> int (length rs) \<le> 3
          \<and> sorted_wrt (\<lambda>a b. js_le (relevance b) (relevance a)) rs"
    using retrieval_ranked_and_bounded [of "\<lambda>q. [Fin 0, Fin 2, Fin 5, Fin 1, Fin 3]"
        "''gstr1 deadline''"
        "[\<lparr>kd_id = ''a'', content = ''A'', tags = []\<rparr>,
      \<lparr>kd_id = ''b'', content = ''B'', tags = []\<rparr>,
      \<lparr>kd_id = ''c'', content = ''C'', tags = []\<rparr>,
      \<lparr>kd_id = ''d'', content = ''D'', tags = []\<rparr>,
      \<lparr>kd_id = ''e'', content = ''E'', tags = []\<rparr>]" 3]
    by simp blast
  have ev: "retrieveRelevantKnowledge (\<lambda>q. [Fin 0, Fin 2, Fin 5, Fin 1, Fin 3])
        [\<lparr>kd_id = ''a'', content = ''A'', tags = []\<rparr>,
      \<lparr>kd_id = ''b'', content = ''B'', tags = []\<rparr>,
      \<lparr>kd_id = ''c'', content = ''C'', tags = []\<rparr>,
      \<lparr>kd_id = ''d'', content = ''D'', tags = []\<rparr>,
      \<lparr>kd_id = ''e'', content = ''E'', tags = []\<rparr>] ''gstr1 deadline'' 3
      = Inr [\<lparr>document = \<lparr>kd_id = ''c'', content = ''C'', tags = []\<rparr>,
              relevance = Fin 5, r_id = ''c''\<rparr>,
             \<lparr>document = \<lparr>kd_id = ''e'', content = ''E'', tags = []\<rparr>,
              relevance = Fin 3, r_id = ''e''\<rparr>,
             \<lparr>document = \<lparr>kd_id = ''b'', content = ''B'', tags = []\<rparr>,
              relevance = Fin 2, r_id = ''b''\<rparr>]"
    by (simp add: retrieveRelevantKnowledge_def sort_rel_def slice0_def js_sub_def)
  show ?thesis
    by (intro conjI ex ev) simp_all
qed

end
